theory Spec2Isabelle
  imports Main "HOL-Library.Word"
begin

section \<open>Values, errors and outcomes of the JavaScript program\<close>

text \<open>
  \<^verbatim>\<open>messaging.ts\<close> is a command-line program over two external packages
  (\<^verbatim>\<open>@bsv/sdk\<close>, \<^verbatim>\<open>@bsv/wallet-toolbox\<close>) and the Node runtime. The program's
  own code is embedded function by function; everything it imports is a field of the
  record \<open>platform\<close> below, so every theorem holds for any behaviour of the imported code
  unless a hypothesis says otherwise.
\<close>

type_synonym byte = "8 word"

type_synonym bytes = "byte list"

text \<open>
  A JavaScript value as \<^verbatim>\<open>JSON.parse\<close> can return it, plus \<^verbatim>\<open>undefined\<close> (the
  value of a missing property). Numbers matter only through their truthiness.
\<close>

datatype jsval =
    JUndefined
  | JNull
  | JBool bool
  | JNum int
  | JStr string
  | JArr "jsval list"
  | JObj "(string \<times> jsval) list"

datatype js_error = JsError (message: string)

text \<open>How an \<^verbatim>\<open>async\<close> command ends: its promise resolves, it rejects, or
  \<^verbatim>\<open>process.exit(n)\<close> was called.\<close>

datatype outcome = Resolved | Rejected js_error | Exit nat

text \<open>JavaScript truthiness, as used by \<^verbatim>\<open>if (existing)\<close> and \<^verbatim>\<open>if (!stored)\<close>.\<close>

fun truthy :: "jsval \<Rightarrow> bool" where
  "truthy JUndefined = False"
| "truthy JNull = False"
| "truthy (JBool b) = b"
| "truthy (JNum n) = (n \<noteq> 0)"
| "truthy (JStr s) = (s \<noteq> [])"
| "truthy (JArr xs) = True"
| "truthy (JObj kvs) = True"

text \<open>Reading a property throws a TypeError on \<^verbatim>\<open>null\<close> and \<^verbatim>\<open>undefined\<close>; on every
  other value the properties read by this program (\<^verbatim>\<open>privateKeyHex\<close>, \<^verbatim>\<open>identityKey\<close>,
  \<^verbatim>\<open>ciphertext\<close>, \<^verbatim>\<open>signature\<close>, \<^verbatim>\<open>keyID\<close>, \<^verbatim>\<open>sender\<close>) are own properties of
  an object or \<^verbatim>\<open>undefined\<close>.\<close>

fun nullish :: "jsval \<Rightarrow> bool" where
  "nullish JUndefined = True"
| "nullish JNull = True"
| "nullish v = False"

fun propOf :: "jsval \<Rightarrow> string \<Rightarrow> jsval" where
  "propOf (JObj kvs) k = (case map_of kvs k of None \<Rightarrow> JUndefined | Some v \<Rightarrow> v)"
| "propOf v k = JUndefined"

definition readError :: "string \<Rightarrow> js_error" where
  "readError k = JsError (''Cannot read properties of null (reading '' @ k @ '')'')"

text \<open>\<^verbatim>\<open>process.argv[i]\<close>: a string, or \<^verbatim>\<open>undefined\<close> past the end.\<close>

definition argvAt :: "string list \<Rightarrow> nat \<Rightarrow> string option" where
  "argvAt argv i = (if i < length argv then Some (argv ! i) else None)"

text \<open>\<^verbatim>\<open>a || d\<close> on an optional string: \<^verbatim>\<open>undefined\<close> and \<^verbatim>\<open>""\<close> are falsy.\<close>

fun orElse :: "string option \<Rightarrow> string \<Rightarrow> string" where
  "orElse None d = d"
| "orElse (Some s) d = (if s = [] then d else s)"

section \<open>The imported code\<close>

record wallet_env =
  env_chain :: string
  env_identityKey :: string
  env_identityKey2 :: string
  env_filePath :: jsval
  env_taalApiKey :: string
  env_devKeys :: "(string \<times> jsval) list"
  env_mySQLConnection :: string

record setup_args =
  env :: wallet_env
  rootKeyHex :: jsval
  filePath :: string
  databaseName :: string

text \<open>The two fields of the object \<^verbatim>\<open>Setup.createWalletSQLite\<close> returns that the program
  reads.\<close>

record 'w wallet_setup =
  identityKey :: string
  wallet :: 'w

text \<open>The argument objects of the four wallet methods.\<close>

record derivation =
  protocolID :: "nat \<times> string"
  keyID :: jsval
  counterparty :: jsval

record encrypt_args = derivation +
  plaintext :: bytes

record decrypt_args = derivation +
  ciphertext :: bytes

record sign_args = derivation +
  data :: bytes

record verify_args = sign_args +
  signature :: bytes
  forSelf :: bool

text \<open>
  Everything the program imports. \<open>'w\<close> is the wallet object, \<open>'db\<close> the state of the
  file \<^verbatim>\<open>wallet.sqlite\<close>. A call that throws returns \<open>Inl\<close>. Opening and closing the
  wallet may change the database file, also when they throw; the four wallet operations
  are functions of the wallet and their arguments.
  \<^item> \<open>writeFileSync p c old\<close>: how \<^verbatim>\<open>fs.writeFileSync(p, c)\<close> ends on a file whose
    content is \<open>old\<close>. \<open>None\<close>: the write completes and the file holds \<open>c\<close>.
    \<open>Some (e, left)\<close>: the call throws \<open>e\<close> and leaves the file as \<open>left\<close>, which
    may be the old content, an empty file or a part of \<open>c\<close>, since the file is opened
    for writing, which truncates it, before the data is written;
  \<^item> \<open>jsonParse\<close>, \<open>jsonStringify v n\<close>: \<^verbatim>\<open>JSON.parse\<close>, \<^verbatim>\<open>JSON.stringify(v, null, n)\<close>
    (\<open>n = 0\<close>: no indentation);
  \<^item> \<open>toBase64 bs\<close>: \<^verbatim>\<open>Buffer.from(bs).toString("base64")\<close>;
    \<open>fromBase64 v\<close>: \<^verbatim>\<open>Array.from(Buffer.from(v, "base64"))\<close>;
  \<^item> \<open>toArray\<close>, \<open>toUTF8\<close>: \<^verbatim>\<open>Utils.toArray(s, "utf8")\<close>, \<^verbatim>\<open>Utils.toUTF8\<close>;
  \<^item> \<open>toPublicKey h\<close>: \<^verbatim>\<open>PrivateKey.fromHex(h).toPublicKey().toString()\<close>;
  \<^item> the rest: \<^verbatim>\<open>Setup.createWalletSQLite\<close> and the methods of \<^verbatim>\<open>setup.wallet\<close>.
\<close>

record ('w, 'db) platform =
  writeFileSync :: "string \<Rightarrow> string \<Rightarrow> string option \<Rightarrow> (js_error \<times> string option) option"
  jsonParse :: "string \<Rightarrow> js_error + jsval"
  jsonStringify :: "jsval \<Rightarrow> nat \<Rightarrow> string"
  toBase64 :: "bytes \<Rightarrow> string"
  fromBase64 :: "jsval \<Rightarrow> js_error + bytes"
  toArray :: "string \<Rightarrow> bytes"
  toUTF8 :: "bytes \<Rightarrow> string"
  toPublicKey :: "jsval \<Rightarrow> js_error + string"
  createWalletSQLite :: "setup_args \<Rightarrow> 'db \<Rightarrow> (js_error + 'w wallet_setup) \<times> 'db"
  encrypt :: "'w \<Rightarrow> encrypt_args \<Rightarrow> js_error + bytes"
  createSignature :: "'w \<Rightarrow> sign_args \<Rightarrow> js_error + bytes"
  verifySignature :: "'w \<Rightarrow> verify_args \<Rightarrow> js_error + bool"
  decrypt :: "'w \<Rightarrow> decrypt_args \<Rightarrow> js_error + bytes"
  destroy :: "'w \<Rightarrow> 'db \<Rightarrow> (js_error + unit) \<times> 'db"

section \<open>The state the program acts on\<close>

text \<open>Every call into the imported code and every file write is recorded, in order.\<close>

datatype event =
    FsWriteFile string string
  | CallToPublicKey jsval
  | CallCreateWallet setup_args
  | CallEncrypt encrypt_args
  | CallCreateSignature sign_args
  | CallVerifySignature verify_args
  | CallDecrypt decrypt_args
  | CallDestroy

text \<open>
  \<open>keyFile\<close> is the content of \<^verbatim>\<open>wallet-key.json\<close> (\<open>None\<close>: the file does not exist),
  \<open>dbFile\<close> the state of \<^verbatim>\<open>wallet.sqlite\<close>; \<open>stdout\<close> and \<open>stderr\<close> hold the argument
  lists of the \<^verbatim>\<open>console.log\<close> and \<^verbatim>\<open>console.error\<close> calls made so far.
\<close>

record 'db world =
  keyFile :: "string option"
  dbFile :: 'db
  stdout :: "jsval list list"
  stderr :: "jsval list list"
  calls :: "event list"

text \<open>The random values a run draws: \<^verbatim>\<open>crypto.randomBytes(32).toString("hex")\<close> in
  \<^verbatim>\<open>runInit\<close>, the two \<^verbatim>\<open>PrivateKey.fromRandom().toHex()\<close> in \<^verbatim>\<open>runDemo\<close>.\<close>

record draws =
  initKey :: string
  aliceKey :: string
  bobKey :: string

definition console_log :: "jsval list \<Rightarrow> 'db world \<Rightarrow> 'db world" where
  "console_log args w = w\<lparr>stdout := stdout w @ [args]\<rparr>"

definition console_error :: "jsval list \<Rightarrow> 'db world \<Rightarrow> 'db world" where
  "console_error args w = w\<lparr>stderr := stderr w @ [args]\<rparr>"

definition record_call :: "event \<Rightarrow> 'db world \<Rightarrow> 'db world" where
  "record_call e w = w\<lparr>calls := calls w @ [e]\<rparr>"

section \<open>Constants\<close>

definition MESSAGING_PROTOCOL :: "nat \<times> string" where
  "MESSAGING_PROTOCOL = (2, ''encrypted messaging'')"

definition DEFAULT_KEY_ID :: string where
  "DEFAULT_KEY_ID = ''default''"

text \<open>Both paths are relative to the directory of the script.\<close>

definition KEY_FILE :: string where
  "KEY_FILE = ''wallet-key.json''"

definition DB_FILE :: string where
  "DB_FILE = ''wallet.sqlite''"

section \<open>Key persistence\<close>

definition loadKey :: "('w, 'db) platform \<Rightarrow> 'db world \<Rightarrow> js_error + jsval" where
  "loadKey P w =
     (case keyFile w of
        None \<Rightarrow> Inr JNull
      | Some s \<Rightarrow> jsonParse P s)"

definition keyRecord :: "string \<Rightarrow> string \<Rightarrow> jsval" where
  "keyRecord privateKeyHex idKey =
     JObj [(''privateKeyHex'', JStr privateKeyHex), (''identityKey'', JStr idKey)]"

text \<open>The write goes to the key file itself and its failure is not caught: when
  \<^verbatim>\<open>fs.writeFileSync\<close> throws, \<^verbatim>\<open>saveKey\<close> throws, and the key file is what the failed
  write left. The call is recorded among the events.\<close>

definition saveKey ::
  "('w, 'db) platform \<Rightarrow> string \<Rightarrow> string \<Rightarrow> 'db world \<Rightarrow> (js_error + unit) \<times> 'db world" where
  "saveKey P privateKeyHex idKey w =
     (let content = jsonStringify P (keyRecord privateKeyHex idKey) 2;
          w1 = record_call (FsWriteFile KEY_FILE content) w
      in case writeFileSync P KEY_FILE content (keyFile w1) of
           None \<Rightarrow> (Inr (), w1\<lparr>keyFile := Some content\<rparr>)
         | Some (e, left) \<Rightarrow> (Inl e, w1\<lparr>keyFile := left\<rparr>))"

section \<open>Wallet setup\<close>

definition walletArgs :: "string \<Rightarrow> jsval \<Rightarrow> setup_args" where
  "walletArgs idKey rootKey =
     \<lparr>env = \<lparr>env_chain = ''test'',
              env_identityKey = idKey,
              env_identityKey2 = idKey,
              env_filePath = JUndefined,
              env_taalApiKey = ''testnet_nokey'',
              env_devKeys = [(idKey, rootKey)],
              env_mySQLConnection = ''''\<rparr>,
      rootKeyHex = rootKey,
      filePath = DB_FILE,
      databaseName = ''messaging_wallet''\<rparr>"

definition createWallet ::
  "('w, 'db) platform \<Rightarrow> jsval \<Rightarrow> 'db world \<Rightarrow> (js_error + 'w wallet_setup) \<times> 'db world" where
  "createWallet P rootKey w =
     (let w1 = record_call (CallToPublicKey rootKey) w
      in case toPublicKey P rootKey of
           Inl e \<Rightarrow> (Inl e, w1)
         | Inr idKey \<Rightarrow>
             (let args = walletArgs idKey rootKey;
                  w2 = record_call (CallCreateWallet args) w1;
                  r = createWalletSQLite P args (dbFile w2)
              in (fst r, w2\<lparr>dbFile := snd r\<rparr>)))"

definition noWallet :: "'db world \<Rightarrow> 'db world" where
  "noWallet w = console_error [JStr ''No wallet found. Run 'init' first.''] w"

definition loadWallet ::
  "('w, 'db) platform \<Rightarrow> 'db world \<Rightarrow> (outcome + 'w wallet_setup) \<times> 'db world" where
  "loadWallet P w =
     (case loadKey P w of
        Inl e \<Rightarrow> (Inl (Rejected e), w)
      | Inr stored \<Rightarrow>
          if \<not> truthy stored then (Inl (Exit 1), noWallet w)
          else (case createWallet P (propOf stored ''privateKeyHex'') w of
                  (Inl e, w') \<Rightarrow> (Inl (Rejected e), w')
                | (Inr s, w') \<Rightarrow> (Inr s, w')))"

text \<open>\<^verbatim>\<open>await setup.wallet.destroy()\<close>.\<close>

definition wallet_destroy ::
  "('w, 'db) platform \<Rightarrow> 'w \<Rightarrow> 'db world \<Rightarrow> (js_error + unit) \<times> 'db world" where
  "wallet_destroy P wl w =
     (let w1 = record_call CallDestroy w;
          r = destroy P wl (dbFile w1)
      in (fst r, w1\<lparr>dbFile := snd r\<rparr>))"

section \<open>Commands\<close>

definition shareHint :: "jsval list" where
  "shareHint = [JStr ''Share this key with the person you want to message.'']"

definition runInit :: "('w, 'db) platform \<Rightarrow> string \<Rightarrow> 'db world \<Rightarrow> outcome \<times> 'db world" where
  "runInit P randomHex w =
     (case loadKey P w of
        Inl e \<Rightarrow> (Rejected e, w)
      | Inr existing \<Rightarrow>
          if truthy existing then
            (Resolved,
             console_log shareHint
               (console_log []
                 (console_log [JStr ''Identity key:'', propOf existing ''identityKey'']
                   (console_log [JStr ''Wallet already exists.''] w))))
          else
            (let privateKeyHex = randomHex;
                 w1 = record_call (CallToPublicKey (JStr privateKeyHex)) w
             in case toPublicKey P (JStr privateKeyHex) of
                  Inl e \<Rightarrow> (Rejected e, w1)
                | Inr idKey \<Rightarrow>
                    (case createWallet P (JStr privateKeyHex) w1 of
                       (Inl e, w2) \<Rightarrow> (Rejected e, w2)
                     | (Inr s, w2) \<Rightarrow>
                         (case wallet_destroy P (wallet s) w2 of
                            (Inl e, w3) \<Rightarrow> (Rejected e, w3)
                          | (Inr u, w3) \<Rightarrow>
                              (case saveKey P privateKeyHex idKey w3 of
                                 (Inl e, w4) \<Rightarrow> (Rejected e, w4)
                               | (Inr u', w4) \<Rightarrow>
                                   (Resolved,
                                    console_log shareHint
                                      (console_log []
                                        (console_log [JStr ''Identity key:'', JStr idKey]
                                          (console_log [JStr ''Wallet created.''] w4)))))))))"

definition runIdentity :: "('w, 'db) platform \<Rightarrow> 'db world \<Rightarrow> outcome \<times> 'db world" where
  "runIdentity P w =
     (case loadKey P w of
        Inl e \<Rightarrow> (Rejected e, w)
      | Inr stored \<Rightarrow>
          if \<not> truthy stored then (Exit 1, noWallet w)
          else (Resolved, console_log [propOf stored ''identityKey''] w))"

definition encryptUsage :: "'db world \<Rightarrow> outcome \<times> 'db world" where
  "encryptUsage w =
     (Exit 1,
      console_error
        [JStr ''Usage: npx ts-node messaging.ts encrypt <recipient-pubkey> \"message\" [keyID]''] w)"

text \<open>The envelope object literal of \<^verbatim>\<open>runEncrypt\<close>.\<close>

definition envelopeOf :: "string \<Rightarrow> string \<Rightarrow> string \<Rightarrow> string \<Rightarrow> jsval" where
  "envelopeOf sender kid ct64 sg64 =
     JObj [(''sender'', JStr sender), (''keyID'', JStr kid),
           (''ciphertext'', JStr ct64), (''signature'', JStr sg64)]"

text \<open>\<^verbatim>\<open>runEncrypt\<close> from \<^verbatim>\<open>loadWallet()\<close> on, the arguments being non-empty strings.\<close>

definition encryptBody ::
  "('w, 'db) platform \<Rightarrow> string \<Rightarrow> string \<Rightarrow> string \<Rightarrow> 'db world \<Rightarrow> outcome \<times> 'db world" where
  "encryptBody P recipientPubKey msg kid w =
     (case loadWallet P w of
        (Inl oc, w1) \<Rightarrow> (oc, w1)
      | (Inr s, w1) \<Rightarrow>
          (let eargs = \<lparr>protocolID = MESSAGING_PROTOCOL, keyID = JStr kid,
                        counterparty = JStr recipientPubKey, plaintext = toArray P msg\<rparr>;
               w2 = record_call (CallEncrypt eargs) w1
           in case encrypt P (wallet s) eargs of
                Inl e \<Rightarrow> (Rejected e, w2)
              | Inr ct \<Rightarrow>
                  (let sargs = \<lparr>protocolID = MESSAGING_PROTOCOL, keyID = JStr kid,
                                counterparty = JStr recipientPubKey, data = ct\<rparr>;
                       w3 = record_call (CallCreateSignature sargs) w2
                   in case createSignature P (wallet s) sargs of
                        Inl e \<Rightarrow> (Rejected e, w3)
                      | Inr sg \<Rightarrow>
                          (let envelope = envelopeOf (identityKey s) kid
                                            (toBase64 P ct) (toBase64 P sg);
                               w4 = console_log [JStr (jsonStringify P envelope 0)] w3
                           in case wallet_destroy P (wallet s) w4 of
                                (Inl e, w5) \<Rightarrow> (Rejected e, w5)
                              | (Inr u, w5) \<Rightarrow> (Resolved, w5)))))"

definition runEncrypt ::
  "('w, 'db) platform \<Rightarrow> string list \<Rightarrow> 'db world \<Rightarrow> outcome \<times> 'db world" where
  "runEncrypt P argv w =
     (let kid = orElse (argvAt argv 5) DEFAULT_KEY_ID
      in case (argvAt argv 3, argvAt argv 4) of
           (Some recipientPubKey, Some msg) \<Rightarrow>
             if recipientPubKey = [] \<or> msg = [] then encryptUsage w
             else encryptBody P recipientPubKey msg kid w
         | _ \<Rightarrow> encryptUsage w)"

definition decryptUsage :: "'db world \<Rightarrow> outcome \<times> 'db world" where
  "decryptUsage w =
     (Exit 1,
      console_error
        [JStr (''Usage: npx ts-node messaging.ts decrypt '<envelope-json>'' @ [CHR 0x27])] w)"

text \<open>\<^verbatim>\<open>runDecrypt\<close> after \<^verbatim>\<open>loadWallet()\<close>.\<close>

definition decryptBody ::
  "('w, 'db) platform \<Rightarrow> jsval \<Rightarrow> 'w wallet_setup \<Rightarrow> 'db world \<Rightarrow> outcome \<times> 'db world" where
  "decryptBody P envelope s w =
     (if nullish envelope then (Rejected (readError ''ciphertext''), w)
      else case fromBase64 P (propOf envelope ''ciphertext'') of
        Inl e \<Rightarrow> (Rejected e, w)
      | Inr ciphertextBytes \<Rightarrow>
         (case fromBase64 P (propOf envelope ''signature'') of
            Inl e \<Rightarrow> (Rejected e, w)
          | Inr signatureBytes \<Rightarrow>
             (let vargs = \<lparr>protocolID = MESSAGING_PROTOCOL, keyID = propOf envelope ''keyID'',
                           counterparty = propOf envelope ''sender'', data = ciphertextBytes,
                           signature = signatureBytes, forSelf = False\<rparr>;
                  w1 = record_call (CallVerifySignature vargs) w
              in case verifySignature P (wallet s) vargs of
                   Inl e \<Rightarrow> (Rejected e, w1)
                 | Inr valid \<Rightarrow>
                     (let w2 = console_log [JStr ''Signature valid:'', JBool valid] w1;
                          dargs = \<lparr>protocolID = MESSAGING_PROTOCOL,
                                   keyID = propOf envelope ''keyID'',
                                   counterparty = propOf envelope ''sender'',
                                   ciphertext = ciphertextBytes\<rparr>;
                          w3 = record_call (CallDecrypt dargs) w2
                      in case decrypt P (wallet s) dargs of
                           Inl e \<Rightarrow> (Rejected e, w3)
                         | Inr pt \<Rightarrow>
                             (let w4 = console_log [JStr ''From:'', propOf envelope ''sender''] w3;
                                  w5 = console_log [JStr ''Message:'', JStr (toUTF8 P pt)] w4
                              in case wallet_destroy P (wallet s) w5 of
                                   (Inl e, w6) \<Rightarrow> (Rejected e, w6)
                                 | (Inr u, w6) \<Rightarrow> (Resolved, w6))))))"

definition runDecrypt ::
  "('w, 'db) platform \<Rightarrow> string list \<Rightarrow> 'db world \<Rightarrow> outcome \<times> 'db world" where
  "runDecrypt P argv w =
     (case argvAt argv 3 of
        None \<Rightarrow> decryptUsage w
      | Some envelopeJson \<Rightarrow>
          if envelopeJson = [] then decryptUsage w
          else (case jsonParse P envelopeJson of
                  Inl e \<Rightarrow> (Rejected e, w)
                | Inr envelope \<Rightarrow>
                    (case loadWallet P w of
                       (Inl oc, w1) \<Rightarrow> (oc, w1)
                     | (Inr s, w1) \<Rightarrow> decryptBody P envelope s w1)))"

definition demoPlaintext :: string where
  "demoPlaintext = ''Hello Bob, this is a secret message from Alice!''"

text \<open>\<^verbatim>\<open>runDemo\<close> from the encryption on, both wallets being set up.\<close>

definition demoBody ::
  "('w, 'db) platform \<Rightarrow> 'w wallet_setup \<Rightarrow> 'w wallet_setup \<Rightarrow> 'db world \<Rightarrow> outcome \<times> 'db world" where
  "demoBody P alice bob w =
     (let w1 = console_log [JStr ''Alice encrypts for Bob...'']
                (console_log []
                  (console_log [JStr ''Plaintext:'', JStr demoPlaintext] w));
          eargs = \<lparr>protocolID = MESSAGING_PROTOCOL, keyID = JStr DEFAULT_KEY_ID,
                   counterparty = JStr (identityKey bob),
                   plaintext = toArray P demoPlaintext\<rparr>;
          w2 = record_call (CallEncrypt eargs) w1
      in case encrypt P (wallet alice) eargs of
        Inl e \<Rightarrow> (Rejected e, w2)
      | Inr ct \<Rightarrow>
         (let w3 = console_log [JStr ''Alice signs the ciphertext...'']
                    (console_log []
                      (console_log [JStr ''Ciphertext:'',
                                    JStr (take 40 (toBase64 P ct) @ ''...'')] w2));
              sargs = \<lparr>protocolID = MESSAGING_PROTOCOL, keyID = JStr DEFAULT_KEY_ID,
                       counterparty = JStr (identityKey bob), data = ct\<rparr>;
              w4 = record_call (CallCreateSignature sargs) w3
          in case createSignature P (wallet alice) sargs of
            Inl e \<Rightarrow> (Rejected e, w4)
          | Inr sg \<Rightarrow>
             (let w5 = console_log [JStr ''Bob verifies Alice's signature...'']
                        (console_log []
                          (console_log [JStr ''Signature:'',
                                        JStr (take 40 (toBase64 P sg) @ ''...'')] w4));
                  vargs = \<lparr>protocolID = MESSAGING_PROTOCOL, keyID = JStr DEFAULT_KEY_ID,
                           counterparty = JStr (identityKey alice), data = ct,
                           signature = sg, forSelf = False\<rparr>;
                  w6 = record_call (CallVerifySignature vargs) w5
              in case verifySignature P (wallet bob) vargs of
                Inl e \<Rightarrow> (Rejected e, w6)
              | Inr valid \<Rightarrow>
                 (let w7 = console_log [JStr ''Bob decrypts the message...'']
                            (console_log []
                              (console_log [JStr ''Signature valid:'', JBool valid] w6));
                      dargs = \<lparr>protocolID = MESSAGING_PROTOCOL,
                               keyID = JStr DEFAULT_KEY_ID,
                               counterparty = JStr (identityKey alice),
                               ciphertext = ct\<rparr>;
                      w8 = record_call (CallDecrypt dargs) w7
                  in case decrypt P (wallet bob) dargs of
                    Inl e \<Rightarrow> (Rejected e, w8)
                  | Inr pt \<Rightarrow>
                     (let decryptedText = toUTF8 P pt;
                          match = (decryptedText = demoPlaintext);
                          w9 = console_log [JStr ''Round-trip OK:'', JBool match]
                                (console_log []
                                  (console_log [JStr ''Decrypted:'', JStr decryptedText] w8))
                      in case wallet_destroy P (wallet alice) w9 of
                        (Inl e, w10) \<Rightarrow> (Rejected e, w10)
                      | (Inr u, w10) \<Rightarrow>
                         (case wallet_destroy P (wallet bob) w10 of
                            (Inl e, w11) \<Rightarrow> (Rejected e, w11)
                          | (Inr u', w11) \<Rightarrow>
                              (if \<not> match then Exit 1 else Resolved, w11)))))))"

definition runDemo ::
  "('w, 'db) platform \<Rightarrow> string \<Rightarrow> string \<Rightarrow> 'db world \<Rightarrow> outcome \<times> 'db world" where
  "runDemo P aKey bKey w =
     (let w1 = console_log [JStr ''Setting up Alice's wallet...'']
                (console_log [JStr ''=== BRC-100 Encrypted Messaging Demo ===\<newline>''] w)
      in case createWallet P (JStr aKey) w1 of
        (Inl e, w2) \<Rightarrow> (Rejected e, w2)
      | (Inr alice, w2) \<Rightarrow>
         (let w3 = console_log [JStr ''Setting up Bob's wallet...'']
                    (console_log [JStr ''Alice identity key:'',
                                  JStr (take 24 (identityKey alice) @ ''...\<newline>'')] w2)
          in case createWallet P (JStr bKey) w3 of
            (Inl e, w4) \<Rightarrow> (Rejected e, w4)
          | (Inr bob, w4) \<Rightarrow>
              demoBody P alice bob
                (console_log [JStr ''Bob identity key:'',
                              JStr (take 24 (identityKey bob) @ ''...\<newline>'')] w4)))"

section \<open>The command line\<close>

definition printUsage :: "'db world \<Rightarrow> 'db world" where
  "printUsage w =
     console_log [JStr ''  demo                                  Run a self-contained Alice/Bob demo'']
      (console_log [JStr ''  decrypt '<envelope-json>'              Verify and decrypt a message'']
       (console_log [JStr ''  encrypt <recipient-pubkey> \"message\"   Encrypt and sign a message'']
        (console_log [JStr ''  identity                              Show your public identity key'']
         (console_log [JStr ''  init                                  Create a new wallet identity'']
          (console_log [JStr ''Commands:'']
           (console_log [JStr ''BRC-100 Encrypted Messaging\<newline>''] w))))))"

text \<open>What the process does once the promise \<^verbatim>\<open>run\<close> has settled: a resolved promise
  lets the process end with code 0, the \<^verbatim>\<open>catch\<close> handler prints the error and exits
  with 1.\<close>

fun settle :: "outcome \<times> 'db world \<Rightarrow> nat \<times> 'db world" where
  "settle (Resolved, w) = (0, w)"
| "settle (Rejected e, w) = (1, console_error [JStr ''Error:'', JStr (message e)] w)"
| "settle (Exit n, w) = (n, w)"

text \<open>The dispatcher: the exit code of the process and the state it leaves.\<close>

definition main ::
  "('w, 'db) platform \<Rightarrow> draws \<Rightarrow> string list \<Rightarrow> 'db world \<Rightarrow> nat \<times> 'db world" where
  "main P d argv w =
     (let command = argvAt argv 2
      in if command = Some ''init'' then settle (runInit P (initKey d) w)
         else if command = Some ''identity'' then settle (runIdentity P w)
         else if command = Some ''encrypt'' then settle (runEncrypt P argv w)
         else if command = Some ''decrypt'' then settle (runDecrypt P argv w)
         else if command = Some ''demo'' then settle (runDemo P (aliceKey d) (bobKey d) w)
         else (0, printUsage w))"

section \<open>Properties of the recorded calls\<close>

text \<open>A wallet operation among the recorded calls uses the messaging protocol with key
  identifier \<open>kid\<close> and counterparty \<open>cp\<close>; the other events are not wallet operations.\<close>

fun usesContext :: "jsval \<Rightarrow> jsval \<Rightarrow> event \<Rightarrow> bool" where
  "usesContext kid cp (CallEncrypt a) =
     (protocolID a = (2, ''encrypted messaging'') \<and> keyID a = kid \<and> counterparty a = cp)"
| "usesContext kid cp (CallCreateSignature a) =
     (protocolID a = (2, ''encrypted messaging'') \<and> keyID a = kid \<and> counterparty a = cp)"
| "usesContext kid cp (CallVerifySignature a) =
     (protocolID a = (2, ''encrypted messaging'') \<and> keyID a = kid \<and> counterparty a = cp)"
| "usesContext kid cp (CallDecrypt a) =
     (protocolID a = (2, ''encrypted messaging'') \<and> keyID a = kid \<and> counterparty a = cp)"
| "usesContext kid cp e = True"




section \<open>Laws of the imported code\<close>



definition verify_ok :: "('w, 'db) platform \<Rightarrow> bool" where
  "verify_ok P \<longleftrightarrow> (\<forall>wl a. verifySignature P wl a \<noteq> Inr False)"


section \<open>A small platform to run the program on\<close>

text \<open>
  A concrete platform on which the program can be evaluated. Objects with string fields
  are serialised field by field, every character preceded by \<open>+\<close> and every string closed
  by a dot; bytes and characters are converted one to one. The public key of \<open>h\<close> is
  \<open>02h\<close>; the secret two parties share is a byte computed from both identity keys, the
  protocol and the key identifier; encrypting adds it to every byte, a signature is the
  data with the secret in front, and verifying any other signature throws. Opening a
  wallet creates the database file. Writing a file completes.
\<close>

fun toyStr :: "string \<Rightarrow> string" where
  "toyStr [] = ''.''"
| "toyStr (c # cs) = CHR ''+'' # c # toyStr cs"

fun toyFields :: "(string \<times> jsval) list \<Rightarrow> string" where
  "toyFields [] = ''}''"
| "toyFields ((k, v) # kvs) =
     (case v of JStr s \<Rightarrow> toyStr k @ toyStr s @ toyFields kvs | _ \<Rightarrow> ''?'')"

definition toyStringify :: "jsval \<Rightarrow> nat \<Rightarrow> string" where
  "toyStringify v n = (case v of JObj kvs \<Rightarrow> CHR ''{'' # toyFields kvs | _ \<Rightarrow> ''null'')"

fun toyTokens :: "string \<Rightarrow> string \<Rightarrow> string list option" where
  "toyTokens [] cur = None"
| "toyTokens (c # r) cur =
     (if c = CHR ''}'' then (if r = [] \<and> cur = [] then Some [] else None)
      else if c = CHR ''.'' then map_option ((#) cur) (toyTokens r [])
      else if c = CHR ''+'' then (case r of [] \<Rightarrow> None | x # r' \<Rightarrow> toyTokens r' (cur @ [x]))
      else None)"

fun toyPairs :: "string list \<Rightarrow> (string \<times> jsval) list option" where
  "toyPairs [] = Some []"
| "toyPairs [k] = None"
| "toyPairs (k # v # r) = map_option ((#) (k, JStr v)) (toyPairs r)"

definition toyParse :: "string \<Rightarrow> js_error + jsval" where
  "toyParse s =
     (if s = ''null'' then Inr JNull
      else case s of
        [] \<Rightarrow> Inl (JsError ''Unexpected end of JSON input'')
      | c # r \<Rightarrow>
          if c \<noteq> CHR ''{'' then Inl (JsError ''Unexpected token'')
          else (case toyTokens r [] of
                  None \<Rightarrow> Inl (JsError ''Unexpected token'')
                | Some ts \<Rightarrow>
                    (case toyPairs ts of
                       None \<Rightarrow> Inl (JsError ''Unexpected token'')
                     | Some kvs \<Rightarrow> Inr (JObj kvs))))"

definition toyToChars :: "bytes \<Rightarrow> string" where
  "toyToChars bs = map (\<lambda>b. char_of (unat b)) bs"

definition toyToBytes :: "string \<Rightarrow> bytes" where
  "toyToBytes s = map (\<lambda>c. of_nat (of_char c)) s"

definition toyFromBase64 :: "jsval \<Rightarrow> js_error + bytes" where
  "toyFromBase64 v =
     (case v of JStr s \<Rightarrow> Inr (toyToBytes s)
      | _ \<Rightarrow> Inl (JsError ''The first argument must be of type string''))"

definition toyPublic :: "jsval \<Rightarrow> js_error + string" where
  "toyPublic v =
     (case v of
        JStr h \<Rightarrow> if h = [] then Inl (JsError ''invalid key'') else Inr (''02'' @ h)
      | _ \<Rightarrow> Inl (JsError ''invalid key''))"

definition toyCreate ::
  "setup_args \<Rightarrow> string option \<Rightarrow> (js_error + string wallet_setup) \<times> string option" where
  "toyCreate args db =
     (case toyPublic (rootKeyHex args) of
        Inl e \<Rightarrow> (Inl e, db)
      | Inr k \<Rightarrow> (Inr \<lparr>identityKey = k, wallet = k\<rparr>, Some ''schema''))"

fun toySecret :: "string \<Rightarrow> nat \<times> string \<Rightarrow> jsval \<Rightarrow> jsval \<Rightarrow> byte option" where
  "toySecret own p (JStr kid) (JStr other) =
     Some (of_nat (length own + length other + fst p + length (snd p) + length kid))"
| "toySecret own p k c = None"

definition toyEncrypt :: "string \<Rightarrow> encrypt_args \<Rightarrow> js_error + bytes" where
  "toyEncrypt own a =
     (case toySecret own (protocolID a) (keyID a) (counterparty a) of
        None \<Rightarrow> Inl (JsError ''invalid arguments'')
      | Some k \<Rightarrow> Inr (map (\<lambda>b. b + k) (plaintext a)))"

definition toyDecrypt :: "string \<Rightarrow> decrypt_args \<Rightarrow> js_error + bytes" where
  "toyDecrypt own a =
     (case toySecret own (protocolID a) (keyID a) (counterparty a) of
        None \<Rightarrow> Inl (JsError ''invalid arguments'')
      | Some k \<Rightarrow> Inr (map (\<lambda>b. b - k) (ciphertext a)))"

definition toySign :: "string \<Rightarrow> sign_args \<Rightarrow> js_error + bytes" where
  "toySign own a =
     (case toySecret own (protocolID a) (keyID a) (counterparty a) of
        None \<Rightarrow> Inl (JsError ''invalid arguments'')
      | Some k \<Rightarrow> Inr (k # data a))"

definition toyVerify :: "string \<Rightarrow> verify_args \<Rightarrow> js_error + bool" where
  "toyVerify own a =
     (case toySecret own (protocolID a) (keyID a) (counterparty a) of
        None \<Rightarrow> Inl (JsError ''invalid arguments'')
      | Some k \<Rightarrow>
          if signature a = k # data a then Inr True
          else Inl (JsError ''Signature is not valid''))"

definition toyPlatform :: "(string, string option) platform" where
  "toyPlatform =
     \<lparr>writeFileSync = (\<lambda>p c old. None),
      jsonParse = toyParse, jsonStringify = toyStringify,
      toBase64 = toyToChars, fromBase64 = toyFromBase64,
      toArray = toyToBytes, toUTF8 = toyToChars,
      toPublicKey = toyPublic, createWalletSQLite = toyCreate,
      encrypt = toyEncrypt, createSignature = toySign,
      verifySignature = toyVerify, decrypt = toyDecrypt,
      destroy = (\<lambda>wl db. (Inr (), db))\<rparr>"



definition emptyWorld :: "string option world" where
  "emptyWorld = \<lparr>keyFile = None, dbFile = None, stdout = [], stderr = [], calls = []\<rparr>"

definition toyDraws :: draws where
  "toyDraws = \<lparr>initKey = ''a1'', aliceKey = ''a2'', bobKey = ''b3''\<rparr>"

text \<open>Two parties on the small platform: Alice sends \<open>hi\<close> to Bob, whose database file
  does not exist yet; a third party replaces the signature of her envelope.\<close>

definition aliceWorld :: "string option world" where
  "aliceWorld = \<lparr>keyFile = Some (toyStringify (keyRecord ''a2'' ''02a2'') 2),
                 dbFile = Some ''schema'', stdout = [], stderr = [], calls = []\<rparr>"

definition bobWorld :: "string option world" where
  "bobWorld = \<lparr>keyFile = Some (toyStringify (keyRecord ''b3'' ''02b3'') 2),
               dbFile = None, stdout = [], stderr = [], calls = []\<rparr>"

definition aliceArgv :: "string list" where
  "aliceArgv = [''node'', ''messaging.ts'', ''encrypt'', ''02b3'', ''hi'']"

definition aliceEnvelope :: string where
  "aliceEnvelope =
     toyStringify (envelopeOf ''02a2'' ''default'' (toyToChars [140, 141])
                     (toyToChars [36, 140, 141])) 0"

definition forgedEnvelope :: string where
  "forgedEnvelope =
     toyStringify (envelopeOf ''02a2'' ''default'' (toyToChars [140, 141])
                     (toyToChars [0, 140, 141])) 0"

definition bobArgv :: "string list" where
  "bobArgv = [''node'', ''messaging.ts'', ''decrypt'', aliceEnvelope]"

definition bobArgvForged :: "string list" where
  "bobArgvForged = [''node'', ''messaging.ts'', ''decrypt'', forgedEnvelope]"


definition forgedVerify :: verify_args where
  "forgedVerify =
     \<lparr>protocolID = (2, ''encrypted messaging''), keyID = JStr ''default'',
      counterparty = JStr ''02a2'', data = [140, 141], signature = [0, 140, 141],
      forSelf = False\<rparr>"

section \<open>The small platform obeys the laws\<close>

lemma toyTokens_str:
  "toyTokens (toyStr s @ rest) cur = map_option ((#) (cur @ s)) (toyTokens rest [])"
  by (induction s arbitrary: cur) auto

lemma toyParse_envelope:
  "toyParse (toyStringify (envelopeOf a b c d) n) = Inr (envelopeOf a b c d)"
  by (simp add: toyParse_def toyStringify_def envelopeOf_def toyTokens_str)

lemma toyParse_keyRecord:
  "toyParse (toyStringify (keyRecord a b) n) = Inr (keyRecord a b)"
  by (simp add: toyParse_def toyStringify_def keyRecord_def toyTokens_str)

lemma byte_char_byte: "(word_of_nat (unat b mod 256) :: byte) = b"
proof -
  have "unat b < 2 ^ LENGTH(8)" by (rule unsigned_less)
  then have "unat b mod 256 = unat b" by simp
  then show ?thesis by simp
qed

lemma toy_bytes_chars: "toyToBytes (toyToChars bs) = bs"
  by (induction bs) (simp_all add: toyToBytes_def toyToChars_def byte_char_byte)

lemma toy_chars_bytes: "toyToChars (toyToBytes s) = s"
  by (induction s) (simp_all add: toyToBytes_def toyToChars_def unat_of_nat)

lemma toyStringify_nonempty: "toyStringify v n \<noteq> []"
  by (simp add: toyStringify_def split: jsval.splits)





lemma toy_verify_ok: "verify_ok toyPlatform"
  by (simp add: verify_ok_def toyPlatform_def toyVerify_def split: option.splits)


section \<open>Effects of the steps of a command\<close>

lemma printUsage_frame:
  "keyFile (printUsage w) = keyFile w" "dbFile (printUsage w) = dbFile w"
  "calls (printUsage w) = calls w" "stderr (printUsage w) = stderr w"
  by (simp_all add: printUsage_def console_log_def)

lemma console_error_frame:
  "keyFile (console_error a w) = keyFile w" "dbFile (console_error a w) = dbFile w"
  "calls (console_error a w) = calls w" "stdout (console_error a w) = stdout w"
  by (simp_all add: console_error_def)

lemma noWallet_frame:
  "keyFile (noWallet w) = keyFile w" "dbFile (noWallet w) = dbFile w"
  "calls (noWallet w) = calls w" "stdout (noWallet w) = stdout w"
  by (simp_all add: noWallet_def console_error_def)

lemma keyRecord_props:
  "truthy (keyRecord a b)" "propOf (keyRecord a b) ''privateKeyHex'' = JStr a"
  "propOf (keyRecord a b) ''identityKey'' = JStr b"
  by (simp_all add: keyRecord_def)

lemma envelopeOf_props:
  "\<not> nullish (envelopeOf a b c d)" "propOf (envelopeOf a b c d) ''sender'' = JStr a"
  "propOf (envelopeOf a b c d) ''keyID'' = JStr b"
  "propOf (envelopeOf a b c d) ''ciphertext'' = JStr c"
  "propOf (envelopeOf a b c d) ''signature'' = JStr d"
  by (simp_all add: envelopeOf_def)

lemma createWallet_effect:
  assumes "createWallet P k w = (r, w')"
  shows "keyFile w' = keyFile w \<and> stdout w' = stdout w \<and> stderr w' = stderr w \<and>
         (\<exists>tr. calls w' = calls w @ tr \<and>
               (tr = [CallToPublicKey k] \<and> dbFile w' = dbFile w \<and> (\<exists>e. r = Inl e) \<or>
                (\<exists>idKey. toPublicKey P k = Inr idKey \<and>
                   tr = [CallToPublicKey k, CallCreateWallet (walletArgs idKey k)] \<and>
                   (r, dbFile w') = createWalletSQLite P (walletArgs idKey k) (dbFile w))))"
  using assms
  by (auto simp: createWallet_def Let_def record_call_def split: sum.splits)


lemma loadWallet_effect:
  assumes "loadWallet P w = (r, w')"
  shows "keyFile w' = keyFile w \<and> stdout w' = stdout w \<and>
         (\<exists>tr. calls w' = calls w @ tr \<and>
               (tr = [] \<and> dbFile w' = dbFile w \<and> (\<exists>oc. r = Inl oc) \<or>
                (\<exists>k. tr = [CallToPublicKey k] \<and> dbFile w' = dbFile w \<and> (\<exists>oc. r = Inl oc)) \<or>
                (\<exists>k idKey. tr = [CallToPublicKey k, CallCreateWallet (walletArgs idKey k)])))"
  using assms
  by (auto simp: loadWallet_def noWallet_def console_error_def
           split: sum.splits if_splits prod.splits dest!: createWallet_effect)

lemma loadWallet_setup:
  assumes "loadWallet P w = (Inr s, w')"
  shows "stderr w' = stderr w \<and> stdout w' = stdout w \<and> keyFile w' = keyFile w \<and>
         (\<exists>stored idKey.
            loadKey P w = Inr stored \<and> truthy stored \<and>
            toPublicKey P (propOf stored ''privateKeyHex'') = Inr idKey \<and>
            createWalletSQLite P (walletArgs idKey (propOf stored ''privateKeyHex'')) (dbFile w)
              = (Inr s, dbFile w') \<and>
            calls w' = calls w @
              [CallToPublicKey (propOf stored ''privateKeyHex''),
               CallCreateWallet (walletArgs idKey (propOf stored ''privateKeyHex''))])"
  using assms
  by (auto simp: loadWallet_def createWallet_def Let_def record_call_def prod_eq_iff
           split: sum.splits if_splits prod.splits)

lemma loadWallet_failure:
  assumes "loadWallet P w = (Inl oc, w')"
  shows "oc \<noteq> Resolved \<and> keyFile w' = keyFile w \<and> stdout w' = stdout w \<and>
         (calls w' = calls w \<and> dbFile w' = dbFile w \<or>
          (\<exists>k. calls w' = calls w @ [CallToPublicKey k]) \<and> dbFile w' = dbFile w \<or>
          (\<exists>k idKey. calls w' = calls w @ [CallToPublicKey k, CallCreateWallet (walletArgs idKey k)]))"
  using assms
  by (auto simp: loadWallet_def noWallet_def console_error_def createWallet_def Let_def
                 record_call_def
           split: sum.splits if_splits prod.splits)

lemma loadWallet_none: "keyFile w = None \<Longrightarrow> loadWallet P w = (Inl (Exit 1), noWallet w)"
  by (simp add: loadWallet_def loadKey_def)

lemma wallet_destroy_effect:
  assumes "wallet_destroy P wl w = (r, w')"
  shows "keyFile w' = keyFile w \<and> stdout w' = stdout w \<and> stderr w' = stderr w \<and>
         calls w' = calls w @ [CallDestroy] \<and> (r, dbFile w') = destroy P wl (dbFile w)"
  using assms by (auto simp: wallet_destroy_def Let_def record_call_def)


lemma encryptUsage_effect:
  "encryptUsage w = (oc, w') \<Longrightarrow>
     calls w' = calls w \<and> stdout w' = stdout w \<and> keyFile w' = keyFile w \<and> dbFile w' = dbFile w"
  by (auto simp: encryptUsage_def console_error_def)

lemma decryptUsage_effect:
  "decryptUsage w = (oc, w') \<Longrightarrow>
     calls w' = calls w \<and> stdout w' = stdout w \<and> keyFile w' = keyFile w \<and> dbFile w' = dbFile w"
  by (auto simp: decryptUsage_def console_error_def)

lemma runEncrypt_cases:
  "(\<exists>r m. argvAt argv 3 = Some r \<and> argvAt argv 4 = Some m \<and> r \<noteq> [] \<and> m \<noteq> [] \<and>
      runEncrypt P argv w = encryptBody P r m (orElse (argvAt argv 5) DEFAULT_KEY_ID) w) \<or>
   runEncrypt P argv w = encryptUsage w"
  by (auto simp: runEncrypt_def Let_def split: option.splits)

lemma runDecrypt_cases:
  "(\<exists>j envelope s w1. argvAt argv 3 = Some j \<and> j \<noteq> [] \<and> jsonParse P j = Inr envelope \<and>
      loadWallet P w = (Inr s, w1) \<and> runDecrypt P argv w = decryptBody P envelope s w1) \<or>
   (\<exists>oc w'. runDecrypt P argv w = (oc, w') \<and> oc \<noteq> Resolved \<and> stdout w' = stdout w \<and>
      keyFile w' = keyFile w \<and>
      (\<exists>tr. calls w' = calls w @ tr \<and>
         (\<forall>e\<in>set tr. \<exists>k. e = CallToPublicKey k \<or> (\<exists>a. e = CallCreateWallet a))))"
proof (cases "loadWallet P w")
  case (Pair r w1)
  show ?thesis
  proof (cases r)
    case (Inl oc)
    with Pair loadWallet_failure [of P w oc w1] show ?thesis
      by (auto simp: runDecrypt_def decryptUsage_def console_error_def
            split: option.splits sum.splits)
  next
    case (Inr s)
    with Pair show ?thesis
      by (auto simp: runDecrypt_def decryptUsage_def console_error_def
            split: option.splits sum.splits)
  qed
qed


section \<open>Runs on the small platform\<close>

lemma toy_fields:
  "writeFileSync toyPlatform = (\<lambda>p c old. None)"
  "jsonParse toyPlatform = toyParse" "jsonStringify toyPlatform = toyStringify"
  "toBase64 toyPlatform = toyToChars" "fromBase64 toyPlatform = toyFromBase64"
  "toArray toyPlatform = toyToBytes" "toUTF8 toyPlatform = toyToChars"
  "toPublicKey toyPlatform = toyPublic" "createWalletSQLite toyPlatform = toyCreate"
  "encrypt toyPlatform = toyEncrypt" "createSignature toyPlatform = toySign"
  "verifySignature toyPlatform = toyVerify" "decrypt toyPlatform = toyDecrypt"
  "destroy toyPlatform = (\<lambda>wl db. (Inr (), db))"
  by (simp_all add: toyPlatform_def)

lemma emptyWorld_fields:
  "keyFile emptyWorld = None" "dbFile emptyWorld = None" "stdout emptyWorld = []"
  "stderr emptyWorld = []" "calls emptyWorld = []"
  by (simp_all add: emptyWorld_def)

lemma aliceWorld_fields:
  "stdout aliceWorld = []" "stderr aliceWorld = []" "calls aliceWorld = []"
  "dbFile aliceWorld = Some ''schema''"
  by (simp_all add: aliceWorld_def)

lemma bobWorld_fields:
  "stdout bobWorld = []" "stderr bobWorld = []" "calls bobWorld = []"
  "dbFile bobWorld = None"
  by (simp_all add: bobWorld_def)


lemma toy_chars_bytes_lit:
  "toyToBytes (toyToChars [140, 141]) = [140, 141]"
  "toyToBytes (toyToChars [36, 140, 141]) = [36, 140, 141]"
  "toyToBytes (toyToChars [0, 140, 141]) = [0, 140, 141]"
  by (rule toy_bytes_chars)+


lemma toy_createWallet:
  "h \<noteq> [] \<Longrightarrow> createWallet toyPlatform (JStr h) w =
     (Inr \<lparr>identityKey = ''02'' @ h, wallet = ''02'' @ h\<rparr>,
      w\<lparr>calls := calls w @ [CallToPublicKey (JStr h),
                              CallCreateWallet (walletArgs (''02'' @ h) (JStr h))],
        dbFile := Some ''schema''\<rparr>)"
  by (simp add: createWallet_def record_call_def Let_def toy_fields toyPublic_def toyCreate_def
        walletArgs_def)

lemma toy_loadWallet_alice:
  "loadWallet toyPlatform aliceWorld =
     (Inr \<lparr>identityKey = ''02a2'', wallet = ''02a2''\<rparr>,
      aliceWorld\<lparr>calls := [CallToPublicKey (JStr ''a2''),
                              CallCreateWallet (walletArgs ''02a2'' (JStr ''a2''))]\<rparr>)"
  by (simp add: loadWallet_def loadKey_def createWallet_def record_call_def Let_def
        aliceWorld_def toy_fields toyParse_keyRecord keyRecord_props toyPublic_def toyCreate_def
        walletArgs_def)

lemma toy_loadWallet_bob:
  "loadWallet toyPlatform bobWorld =
     (Inr \<lparr>identityKey = ''02b3'', wallet = ''02b3''\<rparr>,
      bobWorld\<lparr>calls := [CallToPublicKey (JStr ''b3''),
                            CallCreateWallet (walletArgs ''02b3'' (JStr ''b3''))],
               dbFile := Some ''schema''\<rparr>)"
  by (simp add: loadWallet_def loadKey_def createWallet_def record_call_def Let_def
        bobWorld_def toy_fields toyParse_keyRecord keyRecord_props toyPublic_def toyCreate_def
        walletArgs_def)


lemma toy_runEncrypt_alice:
  "runEncrypt toyPlatform aliceArgv aliceWorld =
     (Resolved,
      aliceWorld\<lparr>stdout := [ [JStr aliceEnvelope]],
                  calls := [CallToPublicKey (JStr ''a2''),
                            CallCreateWallet (walletArgs ''02a2'' (JStr ''a2'')),
                            CallEncrypt \<lparr>protocolID = (2, ''encrypted messaging''),
                              keyID = JStr ''default'', counterparty = JStr ''02b3'',
                              plaintext = toyToBytes ''hi''\<rparr>,
                            CallCreateSignature \<lparr>protocolID = (2, ''encrypted messaging''),
                              keyID = JStr ''default'', counterparty = JStr ''02b3'',
                              data = [140, 141]\<rparr>,
                            CallDestroy]\<rparr>)"
  by (simp add: runEncrypt_def encryptBody_def aliceArgv_def argvAt_def toy_loadWallet_alice
        Let_def record_call_def console_log_def wallet_destroy_def aliceEnvelope_def
        toy_fields toyEncrypt_def toySign_def MESSAGING_PROTOCOL_def DEFAULT_KEY_ID_def
        toyToBytes_def aliceWorld_fields)



lemma toy_runDecrypt_forged:
  "runDecrypt toyPlatform bobArgvForged bobWorld =
     (Rejected (JsError ''Signature is not valid''),
      bobWorld\<lparr>calls := [CallToPublicKey (JStr ''b3''),
                         CallCreateWallet (walletArgs ''02b3'' (JStr ''b3'')),
                         CallVerifySignature forgedVerify],
               dbFile := Some ''schema''\<rparr>)"
  by (simp add: runDecrypt_def decryptBody_def bobArgvForged_def argvAt_def toy_loadWallet_bob
        forgedEnvelope_def toyStringify_nonempty toy_fields toyParse_envelope envelopeOf_props
        toyFromBase64_def toy_chars_bytes_lit forgedVerify_def
        Let_def record_call_def console_log_def wallet_destroy_def
        toyVerify_def toyDecrypt_def MESSAGING_PROTOCOL_def bobWorld_fields)

lemma toy_demo: "fst (runDemo toyPlatform ''a2'' ''b3'' emptyWorld) = Resolved"
  by (simp add: runDemo_def demoBody_def toy_createWallet Let_def record_call_def console_log_def
        wallet_destroy_def toy_fields toyEncrypt_def toyDecrypt_def toySign_def toyVerify_def comp_def
        toy_chars_bytes MESSAGING_PROTOCOL_def DEFAULT_KEY_ID_def)

section \<open>The dispatcher and the argument checks\<close>

text \<open>
  C8. When the message argument (\<^verbatim>\<open>process.argv[4]\<close>) is the empty string,
  \<^verbatim>\<open>runEncrypt\<close> prints its usage line to the error stream and calls
  \<^verbatim>\<open>process.exit(1)\<close>: the process ends with code 1, nothing is printed to the output
  stream (no envelope), no file is touched and nothing imported is called.
\<close>

theorem encrypt_rejects_empty_plaintext:
  "runEncrypt P (node # script # command # recipient # [] # rest) w = encryptUsage w \<and>
   main P d (node # script # ''encrypt'' # recipient # [] # rest) w
     = (1, w\<lparr>stderr := stderr w @
          [ [JStr ''Usage: npx ts-node messaging.ts encrypt <recipient-pubkey> \"message\" [keyID]'']]\<rparr>) \<and>
   stdout (snd (main P d (node # script # ''encrypt'' # recipient # [] # rest) w)) = stdout w \<and>
   calls (snd (main P d (node # script # ''encrypt'' # recipient # [] # rest) w)) = calls w"
  by (simp add: main_def argvAt_def runEncrypt_def encryptUsage_def console_error_def)

lemma printUsage_eq:
  "printUsage w =
     w\<lparr>stdout := stdout w @
        [ [JStr ''BRC-100 Encrypted Messaging\<newline>''],
          [JStr ''Commands:''],
          [JStr ''  init                                  Create a new wallet identity''],
          [JStr ''  identity                              Show your public identity key''],
          [JStr ''  encrypt <recipient-pubkey> \"message\"   Encrypt and sign a message''],
          [JStr ''  decrypt '<envelope-json>'              Verify and decrypt a message''],
          [JStr ''  demo                                  Run a self-contained Alice/Bob demo'']]\<rparr>"
  by (simp add: printUsage_def console_log_def)

text \<open>
  C10. When \<^verbatim>\<open>process.argv[2]\<close> is absent or is none of \<^verbatim>\<open>init\<close>, \<^verbatim>\<open>identity\<close>,
  \<^verbatim>\<open>encrypt\<close>, \<^verbatim>\<open>decrypt\<close>, \<^verbatim>\<open>demo\<close>, the dispatcher calls \<^verbatim>\<open>printUsage()\<close> and
  \<^verbatim>\<open>process.exit(0)\<close>: the process ends with code 0 having appended to the output
  stream exactly the seven lines of the usage text, in the order of the source, and
  having changed nothing else: key file, database file, error stream and recorded calls
  are what they were. Exit code 1 comes only from the five recognised subcommands.
\<close>

theorem unrecognized_command_usage:
  "(argvAt argv 2 \<notin> {Some ''init'', Some ''identity'', Some ''encrypt'', Some ''decrypt'',
                        Some ''demo''} \<longrightarrow>
      main P d argv w = (0, printUsage w) \<and>
      main P d argv w =
        (0, w\<lparr>stdout := stdout w @
           [ [JStr ''BRC-100 Encrypted Messaging\<newline>''],
             [JStr ''Commands:''],
             [JStr ''  init                                  Create a new wallet identity''],
             [JStr ''  identity                              Show your public identity key''],
             [JStr ''  encrypt <recipient-pubkey> \"message\"   Encrypt and sign a message''],
             [JStr ''  decrypt '<envelope-json>'              Verify and decrypt a message''],
             [JStr ''  demo                                  Run a self-contained Alice/Bob demo'']]\<rparr>) \<and>
      keyFile (printUsage w) = keyFile w \<and> dbFile (printUsage w) = dbFile w \<and>
      calls (printUsage w) = calls w \<and> stderr (printUsage w) = stderr w) \<and>
   (fst (main P d argv w) = 1 \<longrightarrow>
      argvAt argv 2 \<in> {Some ''init'', Some ''identity'', Some ''encrypt'', Some ''decrypt'',
                        Some ''demo''})"
  by (auto simp: main_def Let_def printUsage_frame printUsage_eq [symmetric])

theorem unrecognized_command_usage_witness:
  "argvAt [''node'', ''messaging.ts'', ''send'', ''02ab'', ''hello''] 2 = Some ''send'' \<and>
   main toyPlatform toyDraws [''node'', ''messaging.ts'', ''send'', ''02ab'', ''hello''] emptyWorld
     = (0, emptyWorld\<lparr>stdout :=
           [ [JStr ''BRC-100 Encrypted Messaging\<newline>''],
             [JStr ''Commands:''],
             [JStr ''  init                                  Create a new wallet identity''],
             [JStr ''  identity                              Show your public identity key''],
             [JStr ''  encrypt <recipient-pubkey> \"message\"   Encrypt and sign a message''],
             [JStr ''  decrypt '<envelope-json>'              Verify and decrypt a message''],
             [JStr ''  demo                                  Run a self-contained Alice/Bob demo'']]\<rparr>) \<and>
   argvAt [''node'', ''messaging.ts''] 2 = None \<and>
   main toyPlatform toyDraws [''node'', ''messaging.ts''] emptyWorld = (0, printUsage emptyWorld)"
  using unrecognized_command_usage
          [of "[''node'', ''messaging.ts'', ''send'', ''02ab'', ''hello'']"
              toyPlatform toyDraws emptyWorld]
        unrecognized_command_usage [of "[''node'', ''messaging.ts'']" toyPlatform toyDraws emptyWorld]
  by (simp add: argvAt_def emptyWorld_fields printUsage_eq)

section \<open>Commands without an identity\<close>

lemma runIdentity_none: "keyFile w = None \<Longrightarrow> runIdentity P w = (Exit 1, noWallet w)"
  by (simp add: runIdentity_def loadKey_def)

lemma runEncrypt_none:
  "keyFile w = None \<Longrightarrow> \<exists>line. runEncrypt P argv w = (Exit 1, console_error line w)"
  by (auto simp: runEncrypt_def encryptUsage_def encryptBody_def loadWallet_none noWallet_def Let_def
           split: option.splits)

lemma runDecrypt_none:
  "keyFile w = None \<Longrightarrow>
     (\<exists>line. runDecrypt P argv w = (Exit 1, console_error line w)) \<or>
     (\<exists>e. runDecrypt P argv w = (Rejected e, w))"
  by (auto simp: runDecrypt_def decryptUsage_def loadWallet_none noWallet_def
           split: option.splits sum.splits)

text \<open>
  C9. When the key file does not exist, \<^verbatim>\<open>loadWallet\<close> prints
  \<^verbatim>\<open>No wallet found. Run 'init' first.\<close> and exits with 1, and each of the commands
  \<^verbatim>\<open>identity\<close>, \<^verbatim>\<open>encrypt\<close>, \<^verbatim>\<open>decrypt\<close> ends the process with exit code 1, whatever
  its other arguments, without any call into the imported code (no key derivation, no
  wallet, no cryptographic operation), without output on the output stream and without
  touching a file.
\<close>

theorem not_initialized_exit_1:
  assumes "keyFile w = None"
    and "argvAt argv 2 \<in> {Some ''identity'', Some ''encrypt'', Some ''decrypt''}"
  shows "loadWallet P w = (Inl (Exit 1), noWallet w) \<and>
         fst (main P d argv w) = 1 \<and>
         calls (snd (main P d argv w)) = calls w \<and>
         keyFile (snd (main P d argv w)) = None \<and>
         dbFile (snd (main P d argv w)) = dbFile w \<and>
         stdout (snd (main P d argv w)) = stdout w"
proof -
  consider (i) "argvAt argv 2 = Some ''identity''" | (e) "argvAt argv 2 = Some ''encrypt''"
    | (d) "argvAt argv 2 = Some ''decrypt''"
    using assms(2) by auto
  then have "fst (main P d argv w) = 1 \<and>
         calls (snd (main P d argv w)) = calls w \<and>
         keyFile (snd (main P d argv w)) = None \<and>
         dbFile (snd (main P d argv w)) = dbFile w \<and>
         stdout (snd (main P d argv w)) = stdout w"
  proof cases
    case i
    then show ?thesis
      using assms(1) by (simp add: main_def runIdentity_none noWallet_frame)
  next
    case e
    obtain line where "runEncrypt P argv w = (Exit 1, console_error line w)"
      using runEncrypt_none [OF assms(1)] by blast
    with e show ?thesis
      using assms(1) by (simp add: main_def console_error_frame)
  next
    case d
    from runDecrypt_none [OF assms(1), of P argv] show ?thesis
    proof
      assume "\<exists>line. runDecrypt P argv w = (Exit 1, console_error line w)"
      then obtain line where "runDecrypt P argv w = (Exit 1, console_error line w)" by blast
      with d show ?thesis
        using assms(1) by (simp add: main_def console_error_frame)
    next
      assume "\<exists>e. runDecrypt P argv w = (Rejected e, w)"
      then obtain e where "runDecrypt P argv w = (Rejected e, w)" by blast
      with d show ?thesis
        using assms(1) by (simp add: main_def console_error_frame)
    qed
  qed
  then show ?thesis
    using loadWallet_none [OF assms(1)] by simp
qed

theorem not_initialized_exit_1_witness:
  "keyFile emptyWorld = None \<and>
   fst (main toyPlatform toyDraws
          [''node'', ''messaging.ts'', ''encrypt'', ''02b3'', ''hello''] emptyWorld) = 1 \<and>
   calls (snd (main toyPlatform toyDraws
          [''node'', ''messaging.ts'', ''encrypt'', ''02b3'', ''hello''] emptyWorld)) = []"
  using not_initialized_exit_1
          [of emptyWorld "[''node'', ''messaging.ts'', ''encrypt'', ''02b3'', ''hello'']"
              toyPlatform toyDraws]
  by (simp add: emptyWorld_def argvAt_def)

section \<open>Init\<close>













section \<open>Encrypting\<close>

lemma encryptBody_context:
  assumes "encryptBody P r m k w = (oc, w')"
  shows "\<exists>tr. calls w' = calls w @ tr \<and> (\<forall>e\<in>set tr. usesContext (JStr k) (JStr r) e) \<and>
          (\<forall>a. CallCreateSignature a \<in> set tr \<longrightarrow>
             (\<exists>s w1 ea. loadWallet P w = (Inr s, w1) \<and> CallEncrypt ea \<in> set tr \<and>
                plaintext ea = toArray P m \<and> encrypt P (wallet s) ea = Inr (data a)))"
  using assms
  by (auto simp: encryptBody_def Let_def record_call_def console_log_def MESSAGING_PROTOCOL_def
           split: sum.splits prod.splits
           dest!: loadWallet_effect wallet_destroy_effect)

lemma encryptBody_envelope:
  assumes "encryptBody P r m k w = (oc, w')" and "stdout w' \<noteq> stdout w"
  shows "\<exists>s w1 ct sg.
           loadWallet P w = (Inr s, w1) \<and>
           encrypt P (wallet s)
             \<lparr>protocolID = (2, ''encrypted messaging''), keyID = JStr k,
              counterparty = JStr r, plaintext = toArray P m\<rparr> = Inr ct \<and>
           createSignature P (wallet s)
             \<lparr>protocolID = (2, ''encrypted messaging''), keyID = JStr k,
              counterparty = JStr r, data = ct\<rparr> = Inr sg \<and>
           stdout w' = stdout w @
             [ [JStr (jsonStringify P
                 (JObj [(''sender'', JStr (identityKey s)), (''keyID'', JStr k),
                        (''ciphertext'', JStr (toBase64 P ct)),
                        (''signature'', JStr (toBase64 P sg))]) 0)]]"
  using assms
  by (auto simp: encryptBody_def Let_def record_call_def console_log_def MESSAGING_PROTOCOL_def
                 envelopeOf_def
           split: sum.splits prod.splits
           dest!: loadWallet_effect wallet_destroy_effect)

lemma runEncrypt_envelope:
  assumes "runEncrypt P argv w = (oc, w')" and "stdout w' \<noteq> stdout w"
  shows "\<exists>r m s w1 ct sg.
           argvAt argv 3 = Some r \<and> argvAt argv 4 = Some m \<and>
           loadWallet P w = (Inr s, w1) \<and>
           encrypt P (wallet s)
             \<lparr>protocolID = (2, ''encrypted messaging''),
              keyID = JStr (orElse (argvAt argv 5) DEFAULT_KEY_ID),
              counterparty = JStr r, plaintext = toArray P m\<rparr> = Inr ct \<and>
           createSignature P (wallet s)
             \<lparr>protocolID = (2, ''encrypted messaging''),
              keyID = JStr (orElse (argvAt argv 5) DEFAULT_KEY_ID),
              counterparty = JStr r, data = ct\<rparr> = Inr sg \<and>
           stdout w' = stdout w @
             [ [JStr (jsonStringify P
                 (JObj [(''sender'', JStr (identityKey s)),
                        (''keyID'', JStr (orElse (argvAt argv 5) DEFAULT_KEY_ID)),
                        (''ciphertext'', JStr (toBase64 P ct)),
                        (''signature'', JStr (toBase64 P sg))]) 0)]]"
proof -
  from runEncrypt_cases [of argv P w] show ?thesis
  proof
    assume "\<exists>r m. argvAt argv 3 = Some r \<and> argvAt argv 4 = Some m \<and> r \<noteq> [] \<and> m \<noteq> [] \<and>
      runEncrypt P argv w = encryptBody P r m (orElse (argvAt argv 5) DEFAULT_KEY_ID) w"
    then obtain r m where a: "argvAt argv 3 = Some r" "argvAt argv 4 = Some m"
      and b: "encryptBody P r m (orElse (argvAt argv 5) DEFAULT_KEY_ID) w = (oc, w')"
      using assms(1) by auto
    from encryptBody_envelope [OF b assms(2)] a show ?thesis by blast
  next
    assume "runEncrypt P argv w = encryptUsage w"
    with assms have False by (auto dest: encryptUsage_effect)
    then show ?thesis ..
  qed
qed

lemma runEncrypt_context:
  assumes "runEncrypt P argv w = (oc, w')"
  shows "\<exists>tr. calls w' = calls w @ tr \<and>
          (\<forall>e\<in>set tr. usesContext (JStr (orElse (argvAt argv 5) DEFAULT_KEY_ID))
                          (case argvAt argv 3 of None \<Rightarrow> JUndefined | Some r \<Rightarrow> JStr r) e) \<and>
          (\<forall>a. CallCreateSignature a \<in> set tr \<longrightarrow>
             (\<exists>s w1 ea m. loadWallet P w = (Inr s, w1) \<and> CallEncrypt ea \<in> set tr \<and>
                argvAt argv 4 = Some m \<and> plaintext ea = toArray P m \<and>
                encrypt P (wallet s) ea = Inr (data a)))"
proof -
  from runEncrypt_cases [of argv P w] show ?thesis
  proof
    assume "\<exists>r m. argvAt argv 3 = Some r \<and> argvAt argv 4 = Some m \<and> r \<noteq> [] \<and> m \<noteq> [] \<and>
      runEncrypt P argv w = encryptBody P r m (orElse (argvAt argv 5) DEFAULT_KEY_ID) w"
    then obtain r m where a: "argvAt argv 3 = Some r" "argvAt argv 4 = Some m"
      and b: "encryptBody P r m (orElse (argvAt argv 5) DEFAULT_KEY_ID) w = (oc, w')"
      using assms(1) by auto
    from encryptBody_context [OF b] a show ?thesis by auto
  next
    assume "runEncrypt P argv w = encryptUsage w"
    with assms have "calls w' = calls w @ []" by (auto dest: encryptUsage_effect)
    then show ?thesis by (intro exI [of _ "[]"]) simp
  qed
qed


text \<open>
  C6. Whenever \<^verbatim>\<open>runEncrypt\<close> prints anything to the output stream, it prints exactly
  one line: the JSON text of an object with exactly the four fields \<^verbatim>\<open>sender\<close>,
  \<^verbatim>\<open>keyID\<close>, \<^verbatim>\<open>ciphertext\<close>, \<^verbatim>\<open>signature\<close>, in this order. \<^verbatim>\<open>sender\<close> is the
  identity key of the wallet set up from the persisted private key, \<^verbatim>\<open>keyID\<close> the key
  identifier passed to \<^verbatim>\<open>encrypt\<close> and \<^verbatim>\<open>createSignature\<close>, \<^verbatim>\<open>ciphertext\<close> the base64
  text of the bytes \<^verbatim>\<open>encrypt\<close> returned for the message, \<^verbatim>\<open>signature\<close> the base64
  text of the bytes \<^verbatim>\<open>createSignature\<close> returned for that ciphertext.
\<close>

theorem envelope_shape:
  assumes "runEncrypt P argv w = (oc, w')" and "stdout w' \<noteq> stdout w"
  shows "\<exists>r m s w1 ct sg.
           argvAt argv 3 = Some r \<and> argvAt argv 4 = Some m \<and>
           loadWallet P w = (Inr s, w1) \<and>
           encrypt P (wallet s)
             \<lparr>protocolID = (2, ''encrypted messaging''),
              keyID = JStr (orElse (argvAt argv 5) DEFAULT_KEY_ID),
              counterparty = JStr r, plaintext = toArray P m\<rparr> = Inr ct \<and>
           createSignature P (wallet s)
             \<lparr>protocolID = (2, ''encrypted messaging''),
              keyID = JStr (orElse (argvAt argv 5) DEFAULT_KEY_ID),
              counterparty = JStr r, data = ct\<rparr> = Inr sg \<and>
           stdout w' = stdout w @
             [ [JStr (jsonStringify P
                 (JObj [(''sender'', JStr (identityKey s)),
                        (''keyID'', JStr (orElse (argvAt argv 5) DEFAULT_KEY_ID)),
                        (''ciphertext'', JStr (toBase64 P ct)),
                        (''signature'', JStr (toBase64 P sg))]) 0)]]"
  using runEncrypt_envelope [OF assms] .

theorem envelope_shape_witness:
  "runEncrypt toyPlatform aliceArgv aliceWorld
     = (Resolved, snd (runEncrypt toyPlatform aliceArgv aliceWorld)) \<and>
   stdout (snd (runEncrypt toyPlatform aliceArgv aliceWorld)) \<noteq> stdout aliceWorld \<and>
   (\<exists>(s :: string wallet_setup) ct sg.
      stdout (snd (runEncrypt toyPlatform aliceArgv aliceWorld)) =
        stdout aliceWorld @
          [ [JStr (jsonStringify toyPlatform
              (JObj [(''sender'', JStr (identityKey s)),
                     (''keyID'', JStr (orElse (argvAt aliceArgv 5) DEFAULT_KEY_ID)),
                     (''ciphertext'', JStr (toBase64 toyPlatform ct)),
                     (''signature'', JStr (toBase64 toyPlatform sg))]) 0)]])"
proof -
  have r: "runEncrypt toyPlatform aliceArgv aliceWorld
     = (Resolved, snd (runEncrypt toyPlatform aliceArgv aliceWorld))"
    by (simp add: toy_runEncrypt_alice)
  have n: "stdout (snd (runEncrypt toyPlatform aliceArgv aliceWorld)) \<noteq> stdout aliceWorld"
    by (simp add: toy_runEncrypt_alice aliceWorld_fields)
  from envelope_shape [OF r n] r n show ?thesis
    by blast
qed




section \<open>Decrypting\<close>

lemma decryptBody_context:
  assumes "decryptBody P envelope s w = (oc, w')"
  shows "\<exists>tr. calls w' = calls w @ tr \<and>
          (\<forall>e\<in>set tr. usesContext (propOf envelope ''keyID'') (propOf envelope ''sender'') e) \<and>
          (\<forall>a. CallVerifySignature a \<in> set tr \<longrightarrow>
             fromBase64 P (propOf envelope ''ciphertext'') = Inr (data a) \<and>
             fromBase64 P (propOf envelope ''signature'') = Inr (signature a) \<and> \<not> forSelf a) \<and>
          (\<forall>a. CallDecrypt a \<in> set tr \<longrightarrow>
             fromBase64 P (propOf envelope ''ciphertext'') = Inr (ciphertext a))"
  using assms
  by (auto simp: decryptBody_def Let_def record_call_def console_log_def MESSAGING_PROTOCOL_def
           split: sum.splits prod.splits if_splits
           dest!: wallet_destroy_effect)

lemma runDecrypt_context:
  assumes "runDecrypt P argv w = (oc, w')"
  shows "\<exists>tr. calls w' = calls w @ tr \<and>
          (\<forall>j envelope. argvAt argv 3 = Some j \<and> jsonParse P j = Inr envelope \<longrightarrow>
             (\<forall>e\<in>set tr. usesContext (propOf envelope ''keyID'') (propOf envelope ''sender'') e) \<and>
             (\<forall>a. CallVerifySignature a \<in> set tr \<longrightarrow>
                fromBase64 P (propOf envelope ''ciphertext'') = Inr (data a) \<and>
                fromBase64 P (propOf envelope ''signature'') = Inr (signature a) \<and> \<not> forSelf a) \<and>
             (\<forall>a. CallDecrypt a \<in> set tr \<longrightarrow>
                fromBase64 P (propOf envelope ''ciphertext'') = Inr (ciphertext a)))"
proof -
  from runDecrypt_cases [of argv P w] show ?thesis
  proof
    assume "\<exists>j envelope s w1. argvAt argv 3 = Some j \<and> j \<noteq> [] \<and> jsonParse P j = Inr envelope \<and>
      loadWallet P w = (Inr s, w1) \<and> runDecrypt P argv w = decryptBody P envelope s w1"
    then obtain j envelope s w1 where a: "argvAt argv 3 = Some j" "jsonParse P j = Inr envelope"
      and l: "loadWallet P w = (Inr s, w1)"
      and b: "decryptBody P envelope s w1 = (oc, w')"
      using assms by auto
    from loadWallet_setup [OF l] obtain tr1 where
      t1: "calls w1 = calls w @ tr1" "\<forall>e\<in>set tr1. \<exists>k. e = CallToPublicKey k \<or> (\<exists>a. e = CallCreateWallet a)"
      by auto
    from decryptBody_context [OF b] obtain tr2 where
      t2: "calls w' = calls w1 @ tr2"
        "\<forall>e\<in>set tr2. usesContext (propOf envelope ''keyID'') (propOf envelope ''sender'') e"
        "\<forall>a. CallVerifySignature a \<in> set tr2 \<longrightarrow>
             fromBase64 P (propOf envelope ''ciphertext'') = Inr (data a) \<and>
             fromBase64 P (propOf envelope ''signature'') = Inr (signature a) \<and> \<not> forSelf a"
        "\<forall>a. CallDecrypt a \<in> set tr2 \<longrightarrow>
             fromBase64 P (propOf envelope ''ciphertext'') = Inr (ciphertext a)"
      by blast
    show ?thesis
      using a t1 t2 by (intro exI [of _ "tr1 @ tr2"]) auto
  next
    assume "\<exists>oc w'. runDecrypt P argv w = (oc, w') \<and> oc \<noteq> Resolved \<and> stdout w' = stdout w \<and>
      keyFile w' = keyFile w \<and>
      (\<exists>tr. calls w' = calls w @ tr \<and> (\<forall>e\<in>set tr. \<exists>k. e = CallToPublicKey k \<or> (\<exists>a. e = CallCreateWallet a)))"
    then obtain tr where "calls w' = calls w @ tr"
      "\<forall>e\<in>set tr. \<exists>k. e = CallToPublicKey k \<or> (\<exists>a. e = CallCreateWallet a)"
      using assms by auto
    then show ?thesis
      by (intro exI [of _ tr]) auto
  qed
qed

lemma decryptBody_not_verified:
  assumes "verify_ok P" and "\<not> nullish envelope"
    and "fromBase64 P (propOf envelope ''ciphertext'') = Inr ct"
    and "fromBase64 P (propOf envelope ''signature'') = Inr sg"
    and "verifySignature P (wallet s)
           \<lparr>protocolID = (2, ''encrypted messaging''), keyID = propOf envelope ''keyID'',
            counterparty = propOf envelope ''sender'', data = ct, signature = sg,
            forSelf = False\<rparr> \<noteq> Inr True"
  shows "\<exists>e. verifySignature P (wallet s)
           \<lparr>protocolID = (2, ''encrypted messaging''), keyID = propOf envelope ''keyID'',
            counterparty = propOf envelope ''sender'', data = ct, signature = sg,
            forSelf = False\<rparr> = Inl e \<and>
         decryptBody P envelope s w =
           (Rejected e,
            w\<lparr>calls := calls w @
               [CallVerifySignature
                  \<lparr>protocolID = (2, ''encrypted messaging''), keyID = propOf envelope ''keyID'',
                   counterparty = propOf envelope ''sender'', data = ct, signature = sg,
                   forSelf = False\<rparr>]\<rparr>)"
proof -
  let ?v = "\<lparr>protocolID = (2, ''encrypted messaging''), keyID = propOf envelope ''keyID'',
            counterparty = propOf envelope ''sender'', data = ct, signature = sg,
            forSelf = False\<rparr>"
  have "verifySignature P (wallet s) ?v \<noteq> Inr False"
    using assms(1) by (simp add: verify_ok_def)
  with assms(5) obtain e where e: "verifySignature P (wallet s) ?v = Inl e"
    by (cases "verifySignature P (wallet s) ?v") auto
  then show ?thesis
    using assms(2-4)
    by (simp add: decryptBody_def Let_def record_call_def MESSAGING_PROTOCOL_def)
qed

text \<open>
  C1. \<^verbatim>\<open>runDecrypt\<close> has no branch on \<^verbatim>\<open>verification.valid\<close>; it fails closed because
  \<^verbatim>\<open>wallet.verifySignature\<close> throws on a signature that does not verify, which is the
  law \<open>verify_ok\<close> of the imported wallet. Under that law: let a receiver with an
  identity be handed an envelope (a non-empty argument that parses to a value other
  than \<^verbatim>\<open>null\<close>) whose ciphertext and signature decode, and let the signature not
  verify against the decoded ciphertext in the receiver's wallet under protocol
  \<open>(2, ''encrypted messaging'')\<close>, the envelope's \<^verbatim>\<open>keyID\<close> and the envelope's
  \<^verbatim>\<open>sender\<close> as counterparty. Then \<^verbatim>\<open>verifySignature\<close> has thrown, \<^verbatim>\<open>runDecrypt\<close>
  rejects with that error, and the state it leaves is the one \<^verbatim>\<open>loadWallet\<close> left with
  the call of \<^verbatim>\<open>verifySignature\<close> as the one call recorded after it: \<^verbatim>\<open>decrypt\<close> is not
  called and nothing is printed to the output stream, so no plaintext is returned. The
  process prints the error to the error stream and exits with code 1.
\<close>

theorem decrypt_fails_closed:
  assumes "verify_ok P"
    and "argvAt argv 2 = Some ''decrypt''" and "argvAt argv 3 = Some j" and "j \<noteq> []"
    and "jsonParse P j = Inr envelope" and "\<not> nullish envelope"
    and "loadWallet P w = (Inr s, w1)"
    and "fromBase64 P (propOf envelope ''ciphertext'') = Inr ct"
    and "fromBase64 P (propOf envelope ''signature'') = Inr sg"
    and "verifySignature P (wallet s)
           \<lparr>protocolID = (2, ''encrypted messaging''), keyID = propOf envelope ''keyID'',
            counterparty = propOf envelope ''sender'', data = ct, signature = sg,
            forSelf = False\<rparr> \<noteq> Inr True"
  shows "\<exists>e.
           verifySignature P (wallet s)
             \<lparr>protocolID = (2, ''encrypted messaging''), keyID = propOf envelope ''keyID'',
              counterparty = propOf envelope ''sender'', data = ct, signature = sg,
              forSelf = False\<rparr> = Inl e \<and>
           runDecrypt P argv w =
             (Rejected e,
              w1\<lparr>calls := calls w1 @
                 [CallVerifySignature
                    \<lparr>protocolID = (2, ''encrypted messaging''),
                     keyID = propOf envelope ''keyID'',
                     counterparty = propOf envelope ''sender'', data = ct, signature = sg,
                     forSelf = False\<rparr>]\<rparr>) \<and>
           main P d argv w =
             (1,
              w1\<lparr>calls := calls w1 @
                 [CallVerifySignature
                    \<lparr>protocolID = (2, ''encrypted messaging''),
                     keyID = propOf envelope ''keyID'',
                     counterparty = propOf envelope ''sender'', data = ct, signature = sg,
                     forSelf = False\<rparr>],
                 stderr := stderr w1 @ [ [JStr ''Error:'', JStr (message e)]]\<rparr>) \<and>
           stdout w1 = stdout w \<and> stderr w1 = stderr w \<and> keyFile w1 = keyFile w \<and>
           (\<exists>k a. calls w1 = calls w @ [CallToPublicKey k, CallCreateWallet a])"
proof -
  from decryptBody_not_verified [OF assms(1) assms(6) assms(8) assms(9) assms(10), of w1]
  obtain e where
    e: "verifySignature P (wallet s)
           \<lparr>protocolID = (2, ''encrypted messaging''), keyID = propOf envelope ''keyID'',
            counterparty = propOf envelope ''sender'', data = ct, signature = sg,
            forSelf = False\<rparr> = Inl e"
    and b: "decryptBody P envelope s w1 =
           (Rejected e,
            w1\<lparr>calls := calls w1 @
               [CallVerifySignature
                  \<lparr>protocolID = (2, ''encrypted messaging''), keyID = propOf envelope ''keyID'',
                   counterparty = propOf envelope ''sender'', data = ct, signature = sg,
                   forSelf = False\<rparr>]\<rparr>)"
    by blast
  have r: "runDecrypt P argv w = decryptBody P envelope s w1"
    using assms(3-5,7) by (simp add: runDecrypt_def)
  from loadWallet_setup [OF assms(7)] obtain k a where
    w1: "stderr w1 = stderr w" "stdout w1 = stdout w" "keyFile w1 = keyFile w"
      "calls w1 = calls w @ [CallToPublicKey k, CallCreateWallet a]"
    by blast
  have m: "main P d argv w = settle (runDecrypt P argv w)"
    using assms(2) by (simp add: main_def)
  show ?thesis
    using e w1 unfolding m r b
    by (intro exI [of _ e]) (simp add: console_error_def)
qed

theorem decrypt_fails_closed_witness:
  "verify_ok toyPlatform \<and>
   argvAt bobArgvForged 2 = Some ''decrypt'' \<and> argvAt bobArgvForged 3 = Some forgedEnvelope \<and>
   verifySignature toyPlatform ''02b3'' forgedVerify = Inl (JsError ''Signature is not valid'') \<and>
   main toyPlatform toyDraws bobArgvForged bobWorld =
     (1, bobWorld\<lparr>calls := [CallToPublicKey (JStr ''b3''),
                              CallCreateWallet (walletArgs ''02b3'' (JStr ''b3'')),
                              CallVerifySignature forgedVerify],
                   dbFile := Some ''schema'',
                   stderr := [ [JStr ''Error:'', JStr ''Signature is not valid'']]\<rparr>) \<and>
   stdout bobWorld = []"
proof -
  have a: "argvAt bobArgvForged 2 = Some ''decrypt''" "argvAt bobArgvForged 3 = Some forgedEnvelope"
    by (simp_all add: bobArgvForged_def argvAt_def)
  have ne: "forgedEnvelope \<noteq> []"
    by (simp add: forgedEnvelope_def toyStringify_nonempty)
  let ?env = "envelopeOf ''02a2'' ''default'' (toyToChars [140, 141]) (toyToChars [0, 140, 141])"
  have p: "jsonParse toyPlatform forgedEnvelope = Inr ?env"
    by (simp add: forgedEnvelope_def toy_fields toyParse_envelope)
  have n: "\<not> nullish ?env" by (simp add: envelopeOf_props)
  have c: "fromBase64 toyPlatform (propOf ?env ''ciphertext'') = Inr [140, 141]"
    and g: "fromBase64 toyPlatform (propOf ?env ''signature'') = Inr [0, 140, 141]"
    by (simp_all add: envelopeOf_props toy_fields toyFromBase64_def toy_chars_bytes_lit)
  have v: "verifySignature toyPlatform ''02b3'' forgedVerify = Inl (JsError ''Signature is not valid'')"
    by (simp add: forgedVerify_def toy_fields toyVerify_def)
  have nv: "verifySignature toyPlatform (wallet \<lparr>identityKey = ''02b3'', wallet = ''02b3''\<rparr>)
           \<lparr>protocolID = (2, ''encrypted messaging''), keyID = propOf ?env ''keyID'',
            counterparty = propOf ?env ''sender'', data = [140, 141], signature = [0, 140, 141],
            forSelf = False\<rparr> \<noteq> Inr True"
    using v by (simp add: envelopeOf_props forgedVerify_def)
  from decrypt_fails_closed [OF toy_verify_ok a ne p n toy_loadWallet_bob c g nv, of toyDraws]
  have "main toyPlatform toyDraws bobArgvForged bobWorld =
     (1, bobWorld\<lparr>calls := [CallToPublicKey (JStr ''b3''),
                              CallCreateWallet (walletArgs ''02b3'' (JStr ''b3'')),
                              CallVerifySignature forgedVerify],
                   dbFile := Some ''schema'',
                   stderr := [ [JStr ''Error:'', JStr ''Signature is not valid'']]\<rparr>)"
    using v by (auto simp: envelopeOf_props forgedVerify_def bobWorld_fields)
  then show ?thesis
    using toy_verify_ok a v by (simp add: bobWorld_fields)
qed

section \<open>The derivation context\<close>

lemma runEncrypt_trace:
  assumes "argvAt argv 3 = Some r" "r \<noteq> []" "argvAt argv 4 = Some m" "m \<noteq> []"
    and "loadWallet P w = (Inr s, w1)"
    and "kid = (case argvAt argv 5 of None \<Rightarrow> ''default''
                | Some k \<Rightarrow> if k = [] then ''default'' else k)"
  shows "calls (snd (runEncrypt P argv w)) =
           calls w1 @
             CallEncrypt \<lparr>protocolID = (2, ''encrypted messaging''), keyID = JStr kid,
                          counterparty = JStr r, plaintext = toArray P m\<rparr> #
             (case encrypt P (wallet s)
                     \<lparr>protocolID = (2, ''encrypted messaging''), keyID = JStr kid,
                      counterparty = JStr r, plaintext = toArray P m\<rparr> of
                Inl e \<Rightarrow> []
              | Inr ct \<Rightarrow>
                  CallCreateSignature \<lparr>protocolID = (2, ''encrypted messaging''),
                                       keyID = JStr kid, counterparty = JStr r, data = ct\<rparr> #
                  (case createSignature P (wallet s)
                          \<lparr>protocolID = (2, ''encrypted messaging''), keyID = JStr kid,
                           counterparty = JStr r, data = ct\<rparr> of
                     Inl e \<Rightarrow> []
                   | Inr sg \<Rightarrow> [CallDestroy]))"
    and "stdout (snd (runEncrypt P argv w)) =
           stdout w @
             (case encrypt P (wallet s)
                     \<lparr>protocolID = (2, ''encrypted messaging''), keyID = JStr kid,
                      counterparty = JStr r, plaintext = toArray P m\<rparr> of
                Inl e \<Rightarrow> []
              | Inr ct \<Rightarrow>
                  (case createSignature P (wallet s)
                          \<lparr>protocolID = (2, ''encrypted messaging''), keyID = JStr kid,
                           counterparty = JStr r, data = ct\<rparr> of
                     Inl e \<Rightarrow> []
                   | Inr sg \<Rightarrow>
                       [ [JStr (jsonStringify P
                           (JObj [(''sender'', JStr (identityKey s)), (''keyID'', JStr kid),
                                  (''ciphertext'', JStr (toBase64 P ct)),
                                  (''signature'', JStr (toBase64 P sg))]) 0)]]))"
proof -
  have k: "orElse (argvAt argv 5) DEFAULT_KEY_ID = kid"
    using assms(6) by (simp add: DEFAULT_KEY_ID_def split: option.splits)
  have o: "stdout w1 = stdout w"
    using loadWallet_setup [OF assms(5)] by blast
  have r: "runEncrypt P argv w = encryptBody P r m kid w"
    using assms(1-4) k by (simp add: runEncrypt_def)
  show "calls (snd (runEncrypt P argv w)) =
           calls w1 @
             CallEncrypt \<lparr>protocolID = (2, ''encrypted messaging''), keyID = JStr kid,
                          counterparty = JStr r, plaintext = toArray P m\<rparr> #
             (case encrypt P (wallet s)
                     \<lparr>protocolID = (2, ''encrypted messaging''), keyID = JStr kid,
                      counterparty = JStr r, plaintext = toArray P m\<rparr> of
                Inl e \<Rightarrow> []
              | Inr ct \<Rightarrow>
                  CallCreateSignature \<lparr>protocolID = (2, ''encrypted messaging''),
                                       keyID = JStr kid, counterparty = JStr r, data = ct\<rparr> #
                  (case createSignature P (wallet s)
                          \<lparr>protocolID = (2, ''encrypted messaging''), keyID = JStr kid,
                           counterparty = JStr r, data = ct\<rparr> of
                     Inl e \<Rightarrow> []
                   | Inr sg \<Rightarrow> [CallDestroy]))"
    unfolding r using assms(5)
    by (simp add: encryptBody_def Let_def record_call_def console_log_def wallet_destroy_def
          MESSAGING_PROTOCOL_def split: sum.splits prod.splits)
  show "stdout (snd (runEncrypt P argv w)) =
           stdout w @
             (case encrypt P (wallet s)
                     \<lparr>protocolID = (2, ''encrypted messaging''), keyID = JStr kid,
                      counterparty = JStr r, plaintext = toArray P m\<rparr> of
                Inl e \<Rightarrow> []
              | Inr ct \<Rightarrow>
                  (case createSignature P (wallet s)
                          \<lparr>protocolID = (2, ''encrypted messaging''), keyID = JStr kid,
                           counterparty = JStr r, data = ct\<rparr> of
                     Inl e \<Rightarrow> []
                   | Inr sg \<Rightarrow>
                       [ [JStr (jsonStringify P
                           (JObj [(''sender'', JStr (identityKey s)), (''keyID'', JStr kid),
                                  (''ciphertext'', JStr (toBase64 P ct)),
                                  (''signature'', JStr (toBase64 P sg))]) 0)]]))"
    unfolding r using assms(5) o
    by (simp add: encryptBody_def Let_def record_call_def console_log_def wallet_destroy_def
          MESSAGING_PROTOCOL_def envelopeOf_def split: sum.splits prod.splits)
qed

lemma runDecrypt_trace:
  assumes "argvAt argv 3 = Some j" "j \<noteq> []" "jsonParse P j = Inr envelope" "\<not> nullish envelope"
    and "loadWallet P w = (Inr s, w1)"
    and "fromBase64 P (propOf envelope ''ciphertext'') = Inr ct"
    and "fromBase64 P (propOf envelope ''signature'') = Inr sg"
  shows "calls (snd (runDecrypt P argv w)) =
           calls w1 @
             CallVerifySignature
               \<lparr>protocolID = (2, ''encrypted messaging''), keyID = propOf envelope ''keyID'',
                counterparty = propOf envelope ''sender'', data = ct, signature = sg,
                forSelf = False\<rparr> #
             (case verifySignature P (wallet s)
                     \<lparr>protocolID = (2, ''encrypted messaging''),
                      keyID = propOf envelope ''keyID'',
                      counterparty = propOf envelope ''sender'', data = ct, signature = sg,
                      forSelf = False\<rparr> of
                Inl e \<Rightarrow> []
              | Inr v \<Rightarrow>
                  CallDecrypt \<lparr>protocolID = (2, ''encrypted messaging''),
                               keyID = propOf envelope ''keyID'',
                               counterparty = propOf envelope ''sender'', ciphertext = ct\<rparr> #
                  (case decrypt P (wallet s)
                          \<lparr>protocolID = (2, ''encrypted messaging''),
                           keyID = propOf envelope ''keyID'',
                           counterparty = propOf envelope ''sender'', ciphertext = ct\<rparr> of
                     Inl e \<Rightarrow> []
                   | Inr pt \<Rightarrow> [CallDestroy]))"
proof -
  have r: "runDecrypt P argv w = decryptBody P envelope s w1"
    using assms(1-3,5) by (simp add: runDecrypt_def)
  show ?thesis
    unfolding r using assms(4,6,7)
    by (simp add: decryptBody_def Let_def record_call_def console_log_def wallet_destroy_def
          MESSAGING_PROTOCOL_def split: sum.splits prod.splits)
qed

text \<open>
  C7. A run of \<^verbatim>\<open>encrypt\<close> with a recipient and a message, by a sender with an
  identity, calls \<^verbatim>\<open>wallet.encrypt\<close> on the bytes of the message with protocol
  \<open>(2, ''encrypted messaging'')\<close>, the recipient as counterparty and the key identifier
  \<open>kid\<close>, which is \<^verbatim>\<open>process.argv[5]\<close> or, when that is absent or empty, \<open>default\<close>;
  when the call returns a ciphertext it calls \<^verbatim>\<open>wallet.createSignature\<close> on that
  ciphertext with the same protocol, counterparty and key identifier; and when that
  returns a signature it prints the envelope, whose \<^verbatim>\<open>keyID\<close> is \<open>kid\<close> and whose
  \<^verbatim>\<open>ciphertext\<close> and \<^verbatim>\<open>signature\<close> are the base64 of what the two calls returned. A run
  of \<^verbatim>\<open>decrypt\<close> on an envelope whose ciphertext and signature decode, by a receiver
  with an identity, calls \<^verbatim>\<open>wallet.verifySignature\<close> on the decoded ciphertext and
  signature with protocol \<open>(2, ''encrypted messaging'')\<close>, the envelope's \<^verbatim>\<open>keyID\<close> and
  the envelope's \<^verbatim>\<open>sender\<close> as counterparty, and, when that call returns,
  \<^verbatim>\<open>wallet.decrypt\<close> on the same ciphertext with the same context. These are the calls
  recorded after the wallet was opened, in this order, and on every run of either
  command, whatever its arguments, no wallet operation is recorded with another
  protocol, key identifier or counterparty.
\<close>

theorem derivation_context:
  "(argvAt argv 3 = Some r \<and> r \<noteq> [] \<and> argvAt argv 4 = Some m \<and> m \<noteq> [] \<and>
    loadWallet P w = (Inr s, w1) \<and>
    kid = (case argvAt argv 5 of None \<Rightarrow> ''default''
           | Some k \<Rightarrow> if k = [] then ''default'' else k) \<longrightarrow>
      calls (snd (runEncrypt P argv w)) =
        calls w1 @
          CallEncrypt \<lparr>protocolID = (2, ''encrypted messaging''), keyID = JStr kid,
                       counterparty = JStr r, plaintext = toArray P m\<rparr> #
          (case encrypt P (wallet s)
                  \<lparr>protocolID = (2, ''encrypted messaging''), keyID = JStr kid,
                   counterparty = JStr r, plaintext = toArray P m\<rparr> of
             Inl e \<Rightarrow> []
           | Inr ct \<Rightarrow>
               CallCreateSignature \<lparr>protocolID = (2, ''encrypted messaging''),
                                    keyID = JStr kid, counterparty = JStr r, data = ct\<rparr> #
               (case createSignature P (wallet s)
                       \<lparr>protocolID = (2, ''encrypted messaging''), keyID = JStr kid,
                        counterparty = JStr r, data = ct\<rparr> of
                  Inl e \<Rightarrow> []
                | Inr sg \<Rightarrow> [CallDestroy])) \<and>
      stdout (snd (runEncrypt P argv w)) =
        stdout w @
          (case encrypt P (wallet s)
                  \<lparr>protocolID = (2, ''encrypted messaging''), keyID = JStr kid,
                   counterparty = JStr r, plaintext = toArray P m\<rparr> of
             Inl e \<Rightarrow> []
           | Inr ct \<Rightarrow>
               (case createSignature P (wallet s)
                       \<lparr>protocolID = (2, ''encrypted messaging''), keyID = JStr kid,
                        counterparty = JStr r, data = ct\<rparr> of
                  Inl e \<Rightarrow> []
                | Inr sg \<Rightarrow>
                    [ [JStr (jsonStringify P
                        (JObj [(''sender'', JStr (identityKey s)), (''keyID'', JStr kid),
                               (''ciphertext'', JStr (toBase64 P ct)),
                               (''signature'', JStr (toBase64 P sg))]) 0)]]))) \<and>
   (argvAt argv2 3 = Some j \<and> j \<noteq> [] \<and> jsonParse P j = Inr envelope \<and> \<not> nullish envelope \<and>
    loadWallet P w2 = (Inr s2, w3) \<and>
    fromBase64 P (propOf envelope ''ciphertext'') = Inr ct2 \<and>
    fromBase64 P (propOf envelope ''signature'') = Inr sg2 \<longrightarrow>
      calls (snd (runDecrypt P argv2 w2)) =
        calls w3 @
          CallVerifySignature
            \<lparr>protocolID = (2, ''encrypted messaging''), keyID = propOf envelope ''keyID'',
             counterparty = propOf envelope ''sender'', data = ct2, signature = sg2,
             forSelf = False\<rparr> #
          (case verifySignature P (wallet s2)
                  \<lparr>protocolID = (2, ''encrypted messaging''),
                   keyID = propOf envelope ''keyID'',
                   counterparty = propOf envelope ''sender'', data = ct2, signature = sg2,
                   forSelf = False\<rparr> of
             Inl e \<Rightarrow> []
           | Inr v \<Rightarrow>
               CallDecrypt \<lparr>protocolID = (2, ''encrypted messaging''),
                            keyID = propOf envelope ''keyID'',
                            counterparty = propOf envelope ''sender'', ciphertext = ct2\<rparr> #
               (case decrypt P (wallet s2)
                       \<lparr>protocolID = (2, ''encrypted messaging''),
                        keyID = propOf envelope ''keyID'',
                        counterparty = propOf envelope ''sender'', ciphertext = ct2\<rparr> of
                  Inl e \<Rightarrow> []
                | Inr pt \<Rightarrow> [CallDestroy]))) \<and>
   (\<exists>tr. calls (snd (runEncrypt P argv w)) = calls w @ tr \<and>
      (\<forall>e\<in>set tr.
         usesContext
           (JStr (case argvAt argv 5 of None \<Rightarrow> ''default''
                  | Some k \<Rightarrow> if k = [] then ''default'' else k))
           (case argvAt argv 3 of None \<Rightarrow> JUndefined | Some r \<Rightarrow> JStr r) e)) \<and>
   (\<exists>tr. calls (snd (runDecrypt P argv2 w2)) = calls w2 @ tr \<and>
      (\<forall>j envelope. argvAt argv2 3 = Some j \<and> jsonParse P j = Inr envelope \<longrightarrow>
         (\<forall>e\<in>set tr. usesContext (propOf envelope ''keyID'') (propOf envelope ''sender'') e)))"
proof (intro conjI impI)
  assume a: "argvAt argv 3 = Some r \<and> r \<noteq> [] \<and> argvAt argv 4 = Some m \<and> m \<noteq> [] \<and>
    loadWallet P w = (Inr s, w1) \<and>
    kid = (case argvAt argv 5 of None \<Rightarrow> ''default''
           | Some k \<Rightarrow> if k = [] then ''default'' else k)"
  then have a': "argvAt argv 3 = Some r" "r \<noteq> []" "argvAt argv 4 = Some m" "m \<noteq> []"
    "loadWallet P w = (Inr s, w1)"
    "kid = (case argvAt argv 5 of None \<Rightarrow> ''default''
           | Some k \<Rightarrow> if k = [] then ''default'' else k)"
    by blast+
  show "calls (snd (runEncrypt P argv w)) =
        calls w1 @
          CallEncrypt \<lparr>protocolID = (2, ''encrypted messaging''), keyID = JStr kid,
                       counterparty = JStr r, plaintext = toArray P m\<rparr> #
          (case encrypt P (wallet s)
                  \<lparr>protocolID = (2, ''encrypted messaging''), keyID = JStr kid,
                   counterparty = JStr r, plaintext = toArray P m\<rparr> of
             Inl e \<Rightarrow> []
           | Inr ct \<Rightarrow>
               CallCreateSignature \<lparr>protocolID = (2, ''encrypted messaging''),
                                    keyID = JStr kid, counterparty = JStr r, data = ct\<rparr> #
               (case createSignature P (wallet s)
                       \<lparr>protocolID = (2, ''encrypted messaging''), keyID = JStr kid,
                        counterparty = JStr r, data = ct\<rparr> of
                  Inl e \<Rightarrow> []
                | Inr sg \<Rightarrow> [CallDestroy]))"
    by (rule runEncrypt_trace(1) [OF a'])
  show "stdout (snd (runEncrypt P argv w)) =
        stdout w @
          (case encrypt P (wallet s)
                  \<lparr>protocolID = (2, ''encrypted messaging''), keyID = JStr kid,
                   counterparty = JStr r, plaintext = toArray P m\<rparr> of
             Inl e \<Rightarrow> []
           | Inr ct \<Rightarrow>
               (case createSignature P (wallet s)
                       \<lparr>protocolID = (2, ''encrypted messaging''), keyID = JStr kid,
                        counterparty = JStr r, data = ct\<rparr> of
                  Inl e \<Rightarrow> []
                | Inr sg \<Rightarrow>
                    [ [JStr (jsonStringify P
                        (JObj [(''sender'', JStr (identityKey s)), (''keyID'', JStr kid),
                               (''ciphertext'', JStr (toBase64 P ct)),
                               (''signature'', JStr (toBase64 P sg))]) 0)]]))"
    by (rule runEncrypt_trace(2) [OF a'])
next
  assume b: "argvAt argv2 3 = Some j \<and> j \<noteq> [] \<and> jsonParse P j = Inr envelope \<and>
    \<not> nullish envelope \<and> loadWallet P w2 = (Inr s2, w3) \<and>
    fromBase64 P (propOf envelope ''ciphertext'') = Inr ct2 \<and>
    fromBase64 P (propOf envelope ''signature'') = Inr sg2"
  then have b': "argvAt argv2 3 = Some j" "j \<noteq> []" "jsonParse P j = Inr envelope"
    "\<not> nullish envelope" "loadWallet P w2 = (Inr s2, w3)"
    "fromBase64 P (propOf envelope ''ciphertext'') = Inr ct2"
    "fromBase64 P (propOf envelope ''signature'') = Inr sg2"
    by blast+
  show "calls (snd (runDecrypt P argv2 w2)) =
        calls w3 @
          CallVerifySignature
            \<lparr>protocolID = (2, ''encrypted messaging''), keyID = propOf envelope ''keyID'',
             counterparty = propOf envelope ''sender'', data = ct2, signature = sg2,
             forSelf = False\<rparr> #
          (case verifySignature P (wallet s2)
                  \<lparr>protocolID = (2, ''encrypted messaging''),
                   keyID = propOf envelope ''keyID'',
                   counterparty = propOf envelope ''sender'', data = ct2, signature = sg2,
                   forSelf = False\<rparr> of
             Inl e \<Rightarrow> []
           | Inr v \<Rightarrow>
               CallDecrypt \<lparr>protocolID = (2, ''encrypted messaging''),
                            keyID = propOf envelope ''keyID'',
                            counterparty = propOf envelope ''sender'', ciphertext = ct2\<rparr> #
               (case decrypt P (wallet s2)
                       \<lparr>protocolID = (2, ''encrypted messaging''),
                        keyID = propOf envelope ''keyID'',
                        counterparty = propOf envelope ''sender'', ciphertext = ct2\<rparr> of
                  Inl e \<Rightarrow> []
                | Inr pt \<Rightarrow> [CallDestroy]))"
    by (rule runDecrypt_trace [OF b'])
next
  have k: "orElse (argvAt argv 5) DEFAULT_KEY_ID =
             (case argvAt argv 5 of None \<Rightarrow> ''default''
              | Some k \<Rightarrow> if k = [] then ''default'' else k)"
    by (simp add: DEFAULT_KEY_ID_def split: option.splits)
  obtain oc w' where r: "runEncrypt P argv w = (oc, w')" by (cases "runEncrypt P argv w")
  from runEncrypt_context [OF r] obtain tr where
    "calls w' = calls w @ tr"
    "\<forall>e\<in>set tr. usesContext (JStr (orElse (argvAt argv 5) DEFAULT_KEY_ID))
                          (case argvAt argv 3 of None \<Rightarrow> JUndefined | Some r \<Rightarrow> JStr r) e"
    by blast
  then show "\<exists>tr. calls (snd (runEncrypt P argv w)) = calls w @ tr \<and>
      (\<forall>e\<in>set tr.
         usesContext
           (JStr (case argvAt argv 5 of None \<Rightarrow> ''default''
                  | Some k \<Rightarrow> if k = [] then ''default'' else k))
           (case argvAt argv 3 of None \<Rightarrow> JUndefined | Some r \<Rightarrow> JStr r) e)"
    unfolding k r by (intro exI [of _ tr]) simp
next
  obtain oc w' where r: "runDecrypt P argv2 w2 = (oc, w')" by (cases "runDecrypt P argv2 w2")
  from runDecrypt_context [OF r] obtain tr where
    "calls w' = calls w2 @ tr"
    "\<forall>j envelope. argvAt argv2 3 = Some j \<and> jsonParse P j = Inr envelope \<longrightarrow>
             (\<forall>e\<in>set tr. usesContext (propOf envelope ''keyID'') (propOf envelope ''sender'') e)"
    by blast
  then show "\<exists>tr. calls (snd (runDecrypt P argv2 w2)) = calls w2 @ tr \<and>
      (\<forall>j envelope. argvAt argv2 3 = Some j \<and> jsonParse P j = Inr envelope \<longrightarrow>
         (\<forall>e\<in>set tr. usesContext (propOf envelope ''keyID'') (propOf envelope ''sender'') e))"
    unfolding r by (intro exI [of _ tr]) simp
qed

theorem derivation_context_witness:
  "argvAt aliceArgv 3 = Some ''02b3'' \<and> argvAt aliceArgv 4 = Some ''hi'' \<and>
   argvAt aliceArgv 5 = None \<and>
   calls (snd (runEncrypt toyPlatform aliceArgv aliceWorld)) =
     [CallToPublicKey (JStr ''a2''), CallCreateWallet (walletArgs ''02a2'' (JStr ''a2'')),
      CallEncrypt \<lparr>protocolID = (2, ''encrypted messaging''), keyID = JStr ''default'',
                   counterparty = JStr ''02b3'', plaintext = toyToBytes ''hi''\<rparr>,
      CallCreateSignature \<lparr>protocolID = (2, ''encrypted messaging''), keyID = JStr ''default'',
                           counterparty = JStr ''02b3'', data = [140, 141]\<rparr>,
      CallDestroy] \<and>
   stdout (snd (runEncrypt toyPlatform aliceArgv aliceWorld)) =
     [ [JStr (toyStringify
         (JObj [(''sender'', JStr ''02a2''), (''keyID'', JStr ''default''),
                (''ciphertext'', JStr (toyToChars [140, 141])),
                (''signature'', JStr (toyToChars [36, 140, 141]))]) 0)]] \<and>
   argvAt bobArgv 3 = Some aliceEnvelope \<and>
   calls (snd (runDecrypt toyPlatform bobArgv bobWorld)) =
     [CallToPublicKey (JStr ''b3''), CallCreateWallet (walletArgs ''02b3'' (JStr ''b3'')),
      CallVerifySignature \<lparr>protocolID = (2, ''encrypted messaging''), keyID = JStr ''default'',
                           counterparty = JStr ''02a2'', data = [140, 141],
                           signature = [36, 140, 141], forSelf = False\<rparr>,
      CallDecrypt \<lparr>protocolID = (2, ''encrypted messaging''), keyID = JStr ''default'',
                   counterparty = JStr ''02a2'', ciphertext = [140, 141]\<rparr>,
      CallDestroy]"
proof -
  have a: "argvAt aliceArgv 3 = Some ''02b3'' \<and> ''02b3'' \<noteq> [] \<and>
           argvAt aliceArgv 4 = Some ''hi'' \<and> ''hi'' \<noteq> [] \<and>
           loadWallet toyPlatform aliceWorld =
             (Inr \<lparr>identityKey = ''02a2'', wallet = ''02a2''\<rparr>,
              aliceWorld\<lparr>calls := [CallToPublicKey (JStr ''a2''),
                              CallCreateWallet (walletArgs ''02a2'' (JStr ''a2''))]\<rparr>) \<and>
           ''default'' = (case argvAt aliceArgv 5 of None \<Rightarrow> ''default''
                          | Some k \<Rightarrow> if k = [] then ''default'' else k)"
    by (simp add: aliceArgv_def argvAt_def toy_loadWallet_alice)
  let ?env = "envelopeOf ''02a2'' ''default'' (toyToChars [140, 141]) (toyToChars [36, 140, 141])"
  have b: "argvAt bobArgv 3 = Some aliceEnvelope \<and> aliceEnvelope \<noteq> [] \<and>
           jsonParse toyPlatform aliceEnvelope = Inr ?env \<and> \<not> nullish ?env \<and>
           loadWallet toyPlatform bobWorld =
             (Inr \<lparr>identityKey = ''02b3'', wallet = ''02b3''\<rparr>,
              bobWorld\<lparr>calls := [CallToPublicKey (JStr ''b3''),
                            CallCreateWallet (walletArgs ''02b3'' (JStr ''b3''))],
                       dbFile := Some ''schema''\<rparr>) \<and>
           fromBase64 toyPlatform (propOf ?env ''ciphertext'') = Inr [140, 141] \<and>
           fromBase64 toyPlatform (propOf ?env ''signature'') = Inr [36, 140, 141]"
    by (simp add: bobArgv_def argvAt_def aliceEnvelope_def toyStringify_nonempty toy_fields
          toyParse_envelope envelopeOf_props toy_loadWallet_bob toyFromBase64_def
          toy_chars_bytes_lit)
  have e: "encrypt toyPlatform ''02a2''
             \<lparr>protocolID = (2, ''encrypted messaging''), keyID = JStr ''default'',
              counterparty = JStr ''02b3'', plaintext = toArray toyPlatform ''hi''\<rparr>
             = Inr [140, 141]"
    by (simp add: toy_fields toyEncrypt_def toyToBytes_def)
  have g: "createSignature toyPlatform ''02a2''
             \<lparr>protocolID = (2, ''encrypted messaging''), keyID = JStr ''default'',
              counterparty = JStr ''02b3'', data = [140, 141]\<rparr>
             = Inr [36, 140, 141]"
    by (simp add: toy_fields toySign_def)
  have v: "verifySignature toyPlatform ''02b3''
             \<lparr>protocolID = (2, ''encrypted messaging''), keyID = JStr ''default'',
              counterparty = JStr ''02a2'', data = [140, 141], signature = [36, 140, 141],
              forSelf = False\<rparr> = Inr True"
    by (simp add: toy_fields toyVerify_def)
  have d: "decrypt toyPlatform ''02b3''
             \<lparr>protocolID = (2, ''encrypted messaging''), keyID = JStr ''default'',
              counterparty = JStr ''02a2'', ciphertext = [140, 141]\<rparr> = Inr [104, 105]"
    by (simp add: toy_fields toyDecrypt_def)
  from derivation_context
         [of aliceArgv "''02b3''" "''hi''" toyPlatform aliceWorld
             "\<lparr>identityKey = ''02a2'', wallet = ''02a2''\<rparr>"
             "aliceWorld\<lparr>calls := [CallToPublicKey (JStr ''a2''),
                              CallCreateWallet (walletArgs ''02a2'' (JStr ''a2''))]\<rparr>"
             "''default''" bobArgv aliceEnvelope ?env bobWorld
             "\<lparr>identityKey = ''02b3'', wallet = ''02b3''\<rparr>"
             "bobWorld\<lparr>calls := [CallToPublicKey (JStr ''b3''),
                            CallCreateWallet (walletArgs ''02b3'' (JStr ''b3''))],
                       dbFile := Some ''schema''\<rparr>"
             "[140, 141]" "[36, 140, 141]"]
       a b
  have "calls (snd (runEncrypt toyPlatform aliceArgv aliceWorld)) =
     [CallToPublicKey (JStr ''a2''), CallCreateWallet (walletArgs ''02a2'' (JStr ''a2'')),
      CallEncrypt \<lparr>protocolID = (2, ''encrypted messaging''), keyID = JStr ''default'',
                   counterparty = JStr ''02b3'', plaintext = toyToBytes ''hi''\<rparr>,
      CallCreateSignature \<lparr>protocolID = (2, ''encrypted messaging''), keyID = JStr ''default'',
                           counterparty = JStr ''02b3'', data = [140, 141]\<rparr>,
      CallDestroy] \<and>
   stdout (snd (runEncrypt toyPlatform aliceArgv aliceWorld)) =
     [ [JStr (toyStringify
         (JObj [(''sender'', JStr ''02a2''), (''keyID'', JStr ''default''),
                (''ciphertext'', JStr (toyToChars [140, 141])),
                (''signature'', JStr (toyToChars [36, 140, 141]))]) 0)]] \<and>
   calls (snd (runDecrypt toyPlatform bobArgv bobWorld)) =
     [CallToPublicKey (JStr ''b3''), CallCreateWallet (walletArgs ''02b3'' (JStr ''b3'')),
      CallVerifySignature \<lparr>protocolID = (2, ''encrypted messaging''), keyID = JStr ''default'',
                           counterparty = JStr ''02a2'', data = [140, 141],
                           signature = [36, 140, 141], forSelf = False\<rparr>,
      CallDecrypt \<lparr>protocolID = (2, ''encrypted messaging''), keyID = JStr ''default'',
                   counterparty = JStr ''02a2'', ciphertext = [140, 141]\<rparr>,
      CallDestroy]"
    using e g v d
    by (simp add: envelopeOf_props aliceWorld_fields bobWorld_fields toy_fields)
  moreover have "argvAt aliceArgv 5 = None"
    by (simp add: aliceArgv_def argvAt_def)
  ultimately show ?thesis
    using a b by blast
qed

section \<open>The round trip\<close>

















end
